theory Spec2Isabelle
  imports Main
begin

section \<open>MTAS: role-based contact directory and SMS routing\<close>

text \<open>
  A shallow embedding of the TypeScript sources: \<^verbatim>\<open>models/Role.ts\<close>, \<^verbatim>\<open>models/User.ts\<close>,
  \<^verbatim>\<open>services/firestore.ts\<close>, \<^verbatim>\<open>services/twilio.ts\<close>, \<^verbatim>\<open>functions/handleSms.ts\<close>,
  \<^verbatim>\<open>functions/userManagement.ts\<close> and \<^verbatim>\<open>functions/userManagementApi.ts\<close>.
  Every \<^verbatim>\<open>async\<close> function is modelled by state passing: it takes the state of the
  external service it talks to and returns its result together with the new state.
  A rejected promise (a thrown exception) is the \<open>Inl\<close> branch of a sum.
\<close>

subsection \<open>Data model\<close>

text \<open>
  \<^verbatim>\<open>enum Role { SUBSCRIBER = 'SUBSCRIBER', STAFF = 'STAFF', SUPERVISOR = 'SUPERVISOR' }\<close>.
  A string enum: at run time a role is its string, and the role arrays that arrive in
  requests and sit in the store are arrays of arbitrary strings.
\<close>

definition Role_SUBSCRIBER :: string where
  "Role_SUBSCRIBER = ''SUBSCRIBER''"

definition Role_STAFF :: string where
  "Role_STAFF = ''STAFF''"

definition Role_SUPERVISOR :: string where
  "Role_SUPERVISOR = ''SUPERVISOR''"

text \<open>
  \<^verbatim>\<open>Role.ADMIN\<close>, which \<^verbatim>\<open>services/twilio.ts\<close> refers to. The enumeration has no member of
  that name, so at run time the property access on the enumeration object yields
  \<^verbatim>\<open>undefined\<close>. A value that is a role string or \<^verbatim>\<open>undefined\<close> is a \<open>string option\<close>,
  with \<open>None\<close> for \<^verbatim>\<open>undefined\<close>.
\<close>

definition Role_ADMIN :: "string option" where
  "Role_ADMIN = None"

text \<open>\<^verbatim>\<open>Object.values(Role)\<close>\<close>

definition Role_values :: "string list" where
  "Role_values = [Role_SUBSCRIBER, Role_STAFF, Role_SUPERVISOR]"

text \<open>\<^verbatim>\<open>interface User { name: string; phoneNumber: string; roles: Role[] }\<close>\<close>

record User =
  name :: string
  phoneNumber :: string
  roles :: "string list"

text \<open>
  An exception value: a JavaScript \<^verbatim>\<open>Error\<close> with its message (what the directory
  service and the store library throw), the \<^verbatim>\<open>TypeError\<close> of a call of something that is
  not a function, or the rejection of a \<^verbatim>\<open>twilioClient.messages.create\<close> call.
\<close>

datatype error = Error string | TypeError | RestException

subsection \<open>The document store (\<^verbatim>\<open>services/firestore.ts\<close>)\<close>

text \<open>
  The \<^verbatim>\<open>users\<close> collection: its documents in the order in which the store returns them
  from a query, each with its document reference. Lookup by phone number is a filtered
  query, not a fetch by key, so several documents may carry one phone number.
\<close>

type_synonym DocRef = nat

type_synonym Firestore = "(DocRef \<times> User) list"

text \<open>\<^verbatim>\<open>.where('phoneNumber', '==', phoneNumber).get()\<close>: the snapshot's documents.\<close>

definition where_phoneNumber :: "Firestore \<Rightarrow> string \<Rightarrow> (DocRef \<times> User) list" where
  "where_phoneNumber db p = filter (\<lambda>doc. phoneNumber (snd doc) = p) db"

text \<open>
  \<^verbatim>\<open>.where('roles', 'array-contains', role).get()\<close>. The store library (outside the
  sources) checks the value of a filter when the query is built and throws when the value
  is \<^verbatim>\<open>undefined\<close>; no document is read then.
\<close>

definition where_roles_contains :: "Firestore \<Rightarrow> string option \<Rightarrow> error + (DocRef \<times> User) list" where
  "where_roles_contains db role =
     (case role of
        None \<Rightarrow> Inl (Error ''Cannot use undefined as a Firestore value'')
      | Some r \<Rightarrow> Inr (filter (\<lambda>doc. r \<in> set (roles (snd doc))) db))"

text \<open>
  \<^verbatim>\<open>getUserByPhoneNumber\<close>: the query with \<^verbatim>\<open>.limit(1)\<close>; \<^verbatim>\<open>null\<close> when the snapshot is
  empty, the data of \<^verbatim>\<open>snapshot.docs[0]\<close> otherwise.
\<close>

definition getUserByPhoneNumber :: "Firestore \<Rightarrow> string \<Rightarrow> User option" where
  "getUserByPhoneNumber db p =
     (case take 1 (where_phoneNumber db p) of
        [] \<Rightarrow> None
      | doc # _ \<Rightarrow> Some (snd doc))"

text \<open>\<^verbatim>\<open>listUsers\<close> and \<^verbatim>\<open>listUsersByRole\<close>: \<^verbatim>\<open>snapshot.docs.map(doc => doc.data())\<close>.\<close>

definition listUsers :: "Firestore \<Rightarrow> User list" where
  "listUsers db = map snd db"

definition listUsersByRole :: "Firestore \<Rightarrow> string option \<Rightarrow> error + User list" where
  "listUsersByRole db role =
     (case where_roles_contains db role of
        Inl e \<Rightarrow> Inl e
      | Inr docs \<Rightarrow> Inr (map snd docs))"

text \<open>
  \<^verbatim>\<open>addUser\<close>: \<^verbatim>\<open>collection.add({name, phoneNumber, roles})\<close>. The store chooses the
  reference of the new document; the model takes one that no document has.
\<close>

definition fresh_ref :: "Firestore \<Rightarrow> DocRef" where
  "fresh_ref db = Suc (fold max (map fst db) 0)"

definition addUser :: "Firestore \<Rightarrow> string \<Rightarrow> string \<Rightarrow> string list \<Rightarrow> (error + unit) \<times> Firestore" where
  "addUser db n p rs =
     (Inr (), db @ [(fresh_ref db, \<lparr>name = n, phoneNumber = p, roles = rs\<rparr>)])"

text \<open>
  Modelled from the spec: the store's write batch (\<^verbatim>\<open>firestore.batch()\<close>, a library
  outside the sources; specification, external interfaces: an atomic batch of update and
  delete operations that commits or fails as a whole). A batch is the list of its
  operations. \<open>batch_commit\<close> applies all of them, or none: an update of a document
  that does not exist fails the commit and leaves the store as it was.
\<close>

datatype WriteOp = Delete DocRef | Update DocRef "string list"

fun apply_write :: "WriteOp \<Rightarrow> Firestore \<Rightarrow> Firestore" where
  "apply_write (Delete r) db = filter (\<lambda>doc. fst doc \<noteq> r) db"
| "apply_write (Update r rs) db =
     map (\<lambda>doc. if fst doc = r then (fst doc, (snd doc)\<lparr>roles := rs\<rparr>) else doc) db"

fun write_ok :: "Firestore \<Rightarrow> WriteOp \<Rightarrow> bool" where
  "write_ok db (Delete r) = True"
| "write_ok db (Update r rs) = (r \<in> set (map fst db))"

definition batch_commit :: "WriteOp list \<Rightarrow> Firestore \<Rightarrow> (error + unit) \<times> Firestore" where
  "batch_commit batch db =
     (if list_all (write_ok db) batch
      then (Inr (), fold apply_write batch db)
      else (Inl (Error ''NOT_FOUND''), db))"

text \<open>
  \<^verbatim>\<open>removeUser\<close>: query all documents with the phone number, put one delete per
  document of the snapshot into a batch, commit the batch.
\<close>

definition removeUser :: "Firestore \<Rightarrow> string \<Rightarrow> (error + unit) \<times> Firestore" where
  "removeUser db p =
     (let snapshot = where_phoneNumber db p;
          batch = map (\<lambda>doc. Delete (fst doc)) snapshot
      in batch_commit batch db)"

text \<open>
  \<^verbatim>\<open>updateUserRoles\<close>: the same query; an empty snapshot throws
  \<^verbatim>\<open>new Error(`No user found with phone number ${phoneNumber}`)\<close> before a batch exists;
  otherwise one \<^verbatim>\<open>batch.update(doc.ref, { roles })\<close> per document and one commit.
\<close>

definition updateUserRoles :: "Firestore \<Rightarrow> string \<Rightarrow> string list \<Rightarrow> (error + unit) \<times> Firestore" where
  "updateUserRoles db p rs =
     (let snapshot = where_phoneNumber db p
      in if snapshot = []
         then (Inl (Error (''No user found with phone number '' @ p)), db)
         else (let batch = map (\<lambda>doc. Update (fst doc) rs) snapshot
               in batch_commit batch db))"

subsection \<open>The message gateway (\<^verbatim>\<open>services/twilio.ts\<close>)\<close>

text \<open>
  The gateway's state is the log of the \<^verbatim>\<open>twilioClient.messages.create\<close> calls made so
  far, each with its destination, its text and whether the gateway accepted it. Which
  calls the gateway accepts is not the program's choice: \<open>gw k\<close> tells whether the
  call number \<open>k\<close> (counted from 0) succeeds, so \<open>gw\<close> ranges over every assignment of
  outcomes to sends. \<open>calls\<close> records which of the two fan-out services were entered,
  so that a service that sends nothing is still visible.
\<close>

record Sms =
  sms_to :: string
  sms_body :: string
  sms_ok :: bool

datatype ServiceCall = ForwardMessageToAdmins string string | BroadcastMessage string string

record World =
  outbox :: "Sms list"
  calls :: "ServiceCall list"

type_synonym Gateway = "nat \<Rightarrow> bool"

text \<open>
  \<^verbatim>\<open>sendSms(to, body)\<close>: an \<^verbatim>\<open>async\<close> function runs up to its first \<^verbatim>\<open>await\<close> when it is
  called, so the \<^verbatim>\<open>create\<close> call is issued at the call of \<open>sendSms\<close>; the returned
  promise is fulfilled or rejected with the outcome of that call.
\<close>

definition sendSms :: "Gateway \<Rightarrow> string \<Rightarrow> string \<Rightarrow> World \<Rightarrow> (error + unit) \<times> World" where
  "sendSms gw dest txt w =
     (let accepted = gw (length (outbox w))
      in (if accepted then Inr () else Inl RestException,
          w\<lparr>outbox := outbox w @ [\<lparr>sms_to = dest, sms_body = txt, sms_ok = accepted\<rparr>]\<rparr>))"

text \<open>
  \<^verbatim>\<open>users.map(user => sendSms(...))\<close>: the callback is called for each element in order,
  so every send is issued before any promise is awaited. The result is the list of the
  promises' outcomes.
\<close>

fun map_promises :: "('a \<Rightarrow> World \<Rightarrow> (error + unit) \<times> World) \<Rightarrow> 'a list \<Rightarrow> World
    \<Rightarrow> (error + unit) list \<times> World" where
  "map_promises f [] w = ([], w)"
| "map_promises f (x # xs) w =
     (let (r, w1) = f x w;
          (rs, w2) = map_promises f xs w1
      in (r # rs, w2))"

text \<open>
  \<^verbatim>\<open>await Promise.all(promises)\<close>: fulfilled when every promise is fulfilled, rejected
  (with the reason of a rejected promise) as soon as one is rejected.
\<close>

definition Promise_all :: "(error + unit) list \<Rightarrow> error + unit" where
  "Promise_all rs = (case filter isl rs of [] \<Rightarrow> Inr () | r # _ \<Rightarrow> Inl (projl r))"

definition newline :: char where
  "newline = CHR 0x0A"

text \<open>
  \<^verbatim>\<open>forwardMessageToAdmins(fromNumber, message)\<close>. An exception of
  \<^verbatim>\<open>await listUsersByRole(Role.ADMIN)\<close> leaves the function before the fan-out.
\<close>

definition forwardMessageToAdmins :: "Gateway \<Rightarrow> Firestore \<Rightarrow> string \<Rightarrow> string \<Rightarrow> World
    \<Rightarrow> (error + unit) \<times> World" where
  "forwardMessageToAdmins gw db fromNumber message w =
     (let w0 = w\<lparr>calls := calls w @ [ForwardMessageToAdmins fromNumber message]\<rparr>
      in case listUsersByRole db Role_ADMIN of
           Inl e \<Rightarrow> (Inl e, w0)
         | Inr admins \<Rightarrow>
             (let (adminPromises, w1) =
                    map_promises
                      (\<lambda>admin. sendSms gw (phoneNumber admin)
                         (''Message from '' @ fromNumber @ '':'' @ [newline] @ message))
                      admins w0
              in (Promise_all adminPromises, w1)))"

text \<open>
  \<^verbatim>\<open>forwardMessageToSupervisor\<close>, which \<^verbatim>\<open>functions/handleSms.ts\<close> imports from
  \<^verbatim>\<open>'../services'\<close> and calls. No module of the sources defines or exports a binding of
  that name (\<^verbatim>\<open>services/twilio.ts\<close> exports \<^verbatim>\<open>sendSms\<close>, \<^verbatim>\<open>forwardMessageToAdmins\<close> and
  \<^verbatim>\<open>broadcastMessage\<close>), so the imported binding is \<^verbatim>\<open>undefined\<close> and the call throws a
  \<^verbatim>\<open>TypeError\<close> before anything else happens.
\<close>

definition forwardMessageToSupervisor :: "string \<Rightarrow> string \<Rightarrow> World \<Rightarrow> (error + unit) \<times> World" where
  "forwardMessageToSupervisor fromNumber message w = (Inl TypeError, w)"

text \<open>\<^verbatim>\<open>broadcastMessage(fromNumber, message)\<close>\<close>

definition broadcastMessage :: "Gateway \<Rightarrow> Firestore \<Rightarrow> string \<Rightarrow> string \<Rightarrow> World
    \<Rightarrow> (error + unit) \<times> World" where
  "broadcastMessage gw db fromNumber message w =
     (let w0 = w\<lparr>calls := calls w @ [BroadcastMessage fromNumber message]\<rparr>
      in case listUsersByRole db (Some Role_SUBSCRIBER) of
           Inl e \<Rightarrow> (Inl e, w0)
         | Inr subscribers \<Rightarrow>
             (let sender = getUserByPhoneNumber db fromNumber;
                  senderName = (case sender of Some s \<Rightarrow> name s | None \<Rightarrow> fromNumber);
                  (broadcastPromises, w1) =
                    map_promises
                      (\<lambda>subscriber. sendSms gw (phoneNumber subscriber)
                         (''Broadcast from '' @ senderName @ '':'' @ [newline] @ message))
                      (filter (\<lambda>user. phoneNumber user \<noteq> fromNumber) subscribers)
                      w0
              in (Promise_all broadcastPromises, w1)))"

subsection \<open>The inbound SMS handler (\<^verbatim>\<open>functions/handleSms.ts\<close>)\<close>

text \<open>
  The webhook request: \<^verbatim>\<open>req.body.From\<close> and \<^verbatim>\<open>req.body.Body\<close>. A field that is absent
  is read as the empty string: the handler tests both with \<^verbatim>\<open>!\<close>, which does not tell
  an absent field from an empty one.
\<close>

record SmsRequest =
  req_From :: string
  req_Body :: string

datatype Payload = Text string | Xml string | JsonError string | JsonMessage string

record Response =
  status :: nat
  payload :: Payload

text \<open>
  \<^verbatim>\<open>handleSmsFunction\<close>. The \<^verbatim>\<open>catch\<close> block answers 500 for every exception thrown
  inside the \<^verbatim>\<open>try\<close> block.
\<close>

definition handleSmsFunction :: "Gateway \<Rightarrow> Firestore \<Rightarrow> SmsRequest \<Rightarrow> World \<Rightarrow> Response \<times> World" where
  "handleSmsFunction gw db req w =
     (let from = req_From req; body = req_Body req
      in if from = [] \<or> body = []
         then (\<lparr>status = 400, payload = Text ''Missing required parameters''\<rparr>, w)
         else
           (let user = getUserByPhoneNumber db from;
                (r, w') =
                  (if (case user of
                         None \<Rightarrow> True
                       | Some u \<Rightarrow> Role_SUBSCRIBER \<in> set (roles u)
                                  \<and> Role_STAFF \<notin> set (roles u)
                                  \<and> Role_SUPERVISOR \<notin> set (roles u))
                   then
                     (case forwardMessageToSupervisor from body w of
                        (Inl e, w1) \<Rightarrow> (Inl e, w1)
                      | (Inr _, w1) \<Rightarrow>
                          (if user \<noteq> None
                           then sendSms gw from
                                  ''Your message has been forwarded to the administrators.'' w1
                           else (Inr (), w1)))
                   else if (case user of
                              None \<Rightarrow> False
                            | Some u \<Rightarrow> Role_STAFF \<in> set (roles u)
                                       \<or> Role_SUPERVISOR \<in> set (roles u))
                   then
                     (case broadcastMessage gw db from body w of
                        (Inl e, w1) \<Rightarrow> (Inl e, w1)
                      | (Inr _, w1) \<Rightarrow>
                          sendSms gw from
                            ''Your message has been broadcast to all subscribers.'' w1)
                   else (Inr (), w))
            in (case r of
                  Inr _ \<Rightarrow> (\<lparr>status = 200, payload = Xml ''<Response></Response>''\<rparr>, w')
                | Inl e \<Rightarrow> (\<lparr>status = 500, payload = Text ''Internal Server Error''\<rparr>, w'))))"

subsection \<open>The directory API (\<^verbatim>\<open>functions/userManagement.ts\<close>, \<^verbatim>\<open>functions/userManagementApi.ts\<close>)\<close>

text \<open>
  What the handlers read of a request: the method, the path, the route parameter
  \<^verbatim>\<open>:phoneNumber\<close>, and the fields of the JSON body. An absent string field is read as
  the empty string (the handlers test them with \<^verbatim>\<open>!\<close>). \<open>req_body_roles\<close> is \<open>None\<close>
  when \<^verbatim>\<open>roles\<close> is absent or is not an array (\<^verbatim>\<open>!roles || !Array.isArray(roles)\<close>), and
  the array's tokens otherwise; an empty array is an array.
\<close>

record ApiRequest =
  req_method :: string
  req_path :: string
  req_params_phoneNumber :: string
  req_body_name :: string
  req_body_phoneNumber :: string
  req_body_roles :: "string list option"

text \<open>\<^verbatim>\<open>req.path.split('/').pop()\<close>: what follows the last slash of the path.\<close>

definition path_pop :: "string \<Rightarrow> string" where
  "path_pop p = rev (takeWhile (\<lambda>c. c \<noteq> CHR ''/'') (rev p))"

text \<open>\<^verbatim>\<open>String.prototype.startsWith\<close> and \<^verbatim>\<open>String.prototype.includes\<close>\<close>

fun startsWith :: "string \<Rightarrow> string \<Rightarrow> bool" where
  "startsWith s [] = True"
| "startsWith [] (c # cs) = False"
| "startsWith (x # xs) (c # cs) = (x = c \<and> startsWith xs cs)"

fun includes_str :: "string \<Rightarrow> string \<Rightarrow> bool" where
  "includes_str [] needle = (needle = [])"
| "includes_str (x # xs) needle = (startsWith (x # xs) needle \<or> includes_str xs needle)"

text \<open>
  The validation loop
  \<^verbatim>\<open>for (const role of roles) { if (!Object.values(Role).includes(role)) { ...; return; } }\<close>:
  the first token that is not a role, if there is one.
\<close>

definition invalid_role :: "string list \<Rightarrow> string option" where
  "invalid_role rs = find (\<lambda>role. role \<notin> set Role_values) rs"

definition json_error :: "nat \<Rightarrow> string \<Rightarrow> Response" where
  "json_error code msg = \<lparr>status = code, payload = JsonError msg\<rparr>"

definition json_message :: "nat \<Rightarrow> string \<Rightarrow> Response" where
  "json_message code msg = \<lparr>status = code, payload = JsonMessage msg\<rparr>"

text \<open>
  What follows the method check of \<^verbatim>\<open>addUserFunction\<close>; it is also the whole handler of
  \<^verbatim>\<open>router.post('/users', ...)\<close>, whose text is the same. The first test of the source,
  \<^verbatim>\<open>!name || !phoneNumber || !roles || !Array.isArray(roles)\<close>, is the \<open>None\<close> case
  together with the test of the two strings: all four disjuncts give the same response.
\<close>

definition router_post_users :: "ApiRequest \<Rightarrow> Firestore \<Rightarrow> Response \<times> Firestore" where
  "router_post_users req db =
     (let n = req_body_name req; p = req_body_phoneNumber req
      in case req_body_roles req of
           None \<Rightarrow> (json_error 400 ''Name, phone number, and roles are required'', db)
         | Some rs \<Rightarrow>
             if n = [] \<or> p = []
             then (json_error 400 ''Name, phone number, and roles are required'', db)
             else
               (case invalid_role rs of
                  Some role \<Rightarrow> (json_error 400 (''Invalid role: '' @ role), db)
                | None \<Rightarrow>
                    (case getUserByPhoneNumber db p of
                       Some existingUser \<Rightarrow>
                         (json_error 409 ''User with this phone number already exists'', db)
                     | None \<Rightarrow>
                         (case addUser db n p rs of
                            (Inr _, db') \<Rightarrow> (json_message 201 ''User added successfully'', db')
                          | (Inl e, db') \<Rightarrow> (json_error 500 ''Internal server error'', db')))))"

definition addUserFunction :: "ApiRequest \<Rightarrow> Firestore \<Rightarrow> Response \<times> Firestore" where
  "addUserFunction req db =
     (if req_method req \<noteq> ''POST''
      then (json_error 405 ''Method not allowed'', db)
      else router_post_users req db)"

text \<open>
  The part that \<^verbatim>\<open>updateUserFunction\<close> and \<^verbatim>\<open>router.put('/users/:phoneNumber', ...)\<close>
  share, from the phone number on: the number is required, the roles are validated, then
  \<^verbatim>\<open>updateUserRoles\<close> is called; its \<^verbatim>\<open>No user found\<close> error becomes 404, any other
  exception 500.
\<close>

definition update_user :: "string \<Rightarrow> ApiRequest \<Rightarrow> Firestore \<Rightarrow> Response \<times> Firestore" where
  "update_user p req db =
     (if p = []
      then (json_error 400 ''Phone number is required'', db)
      else
        (case req_body_roles req of
           None \<Rightarrow> (json_error 400 ''Roles are required and must be an array'', db)
         | Some rs \<Rightarrow>
             (case invalid_role rs of
                Some role \<Rightarrow> (json_error 400 (''Invalid role: '' @ role), db)
              | None \<Rightarrow>
                  (case updateUserRoles db p rs of
                     (Inr _, db') \<Rightarrow> (json_message 200 ''User updated successfully'', db')
                   | (Inl e, db') \<Rightarrow>
                       (if (case e of
                              Error msg \<Rightarrow> includes_str msg ''No user found''
                            | TypeError \<Rightarrow> False
                            | RestException \<Rightarrow> False)
                        then (json_error 404 ''User not found'', db')
                        else (json_error 500 ''Internal server error'', db'))))))"

definition updateUserFunction :: "ApiRequest \<Rightarrow> Firestore \<Rightarrow> Response \<times> Firestore" where
  "updateUserFunction req db =
     (if req_method req \<noteq> ''PUT''
      then (json_error 405 ''Method not allowed'', db)
      else update_user (path_pop (req_path req)) req db)"

definition router_put_users :: "ApiRequest \<Rightarrow> Firestore \<Rightarrow> Response \<times> Firestore" where
  "router_put_users req db = update_user (req_params_phoneNumber req) req db"

text \<open>
  The part that \<^verbatim>\<open>deleteUserFunction\<close> and \<^verbatim>\<open>router.delete('/users/:phoneNumber', ...)\<close>
  share: the number is required, the user must exist, then \<^verbatim>\<open>removeUser\<close> is called.
\<close>

definition delete_user :: "string \<Rightarrow> Firestore \<Rightarrow> Response \<times> Firestore" where
  "delete_user p db =
     (if p = []
      then (json_error 400 ''Phone number is required'', db)
      else
        (case getUserByPhoneNumber db p of
           None \<Rightarrow> (json_error 404 ''User not found'', db)
         | Some existingUser \<Rightarrow>
             (case removeUser db p of
                (Inr _, db') \<Rightarrow> (json_message 200 ''User removed successfully'', db')
              | (Inl e, db') \<Rightarrow> (json_error 500 ''Internal server error'', db'))))"

definition deleteUserFunction :: "ApiRequest \<Rightarrow> Firestore \<Rightarrow> Response \<times> Firestore" where
  "deleteUserFunction req db =
     (if req_method req \<noteq> ''DELETE''
      then (json_error 405 ''Method not allowed'', db)
      else delete_user (path_pop (req_path req)) db)"

definition router_delete_users :: "ApiRequest \<Rightarrow> Firestore \<Rightarrow> Response \<times> Firestore" where
  "router_delete_users req db = delete_user (req_params_phoneNumber req) db"

subsection \<open>Observing a run\<close>

text \<open>
  The definitions of this subsection are not part of the program; the properties below
  are stated with them.

  What a step sent: destination and text of the gateway calls that \<open>w'\<close> has beyond
  those of \<open>w\<close>, in the order of the calls.
\<close>

definition sent_during :: "World \<Rightarrow> World \<Rightarrow> (string \<times> string) list" where
  "sent_during w w' = map (\<lambda>s. (sms_to s, sms_body s)) (drop (length (outbox w)) (outbox w'))"

text \<open>
  The log entries of a fan-out: one entry per (destination, text) pair, in order, the
  first being gateway call number \<open>k\<close>; \<open>outcome\<close> is the settlement of one send.
\<close>

fun deliveries :: "Gateway \<Rightarrow> nat \<Rightarrow> (string \<times> string) list \<Rightarrow> Sms list" where
  "deliveries gw k [] = []"
| "deliveries gw k (x # xs) =
     \<lparr>sms_to = fst x, sms_body = snd x, sms_ok = gw k\<rparr> # deliveries gw (Suc k) xs"

definition outcome :: "bool \<Rightarrow> error + unit" where
  "outcome b = (if b then Inr () else Inl RestException)"

text \<open>
  \<open>w'\<close> is \<open>w\<close> after exactly one gateway call per recipient, in the order of the list:
  the earlier log is kept, the log grew by the number of recipients, and entry \<open>i\<close> of the
  new part goes to recipient \<open>i\<close> with the text and carries the outcome the gateway gave
  that call.
\<close>

definition attempted_each_once :: "Gateway \<Rightarrow> World \<Rightarrow> string list \<Rightarrow> string \<Rightarrow> World \<Rightarrow> bool" where
  "attempted_each_once gw w recipients txt w' \<longleftrightarrow>
     take (length (outbox w)) (outbox w') = outbox w
   \<and> length (outbox w') = length (outbox w) + length recipients
   \<and> (\<forall>i < length recipients.
         outbox w' ! (length (outbox w) + i) =
           \<lparr>sms_to = recipients ! i, sms_body = txt, sms_ok = gw (length (outbox w) + i)\<rparr>)"

text \<open>
  Names for the broadcast's template literal, the broadcast's confirmation text and the
  two final responses of \<^verbatim>\<open>handleSmsFunction\<close>.
\<close>

definition broadcast_text :: "string \<Rightarrow> string \<Rightarrow> string" where
  "broadcast_text senderName message = ''Broadcast from '' @ senderName @ '':'' @ [newline] @ message"

definition broadcast_confirmation :: string where
  "broadcast_confirmation = ''Your message has been broadcast to all subscribers.''"

definition twiml_ok :: Response where
  "twiml_ok = \<lparr>status = 200, payload = Xml ''<Response></Response>''\<rparr>"

definition internal_error :: Response where
  "internal_error = \<lparr>status = 500, payload = Text ''Internal Server Error''\<rparr>"

subsection \<open>Example data\<close>

text \<open>
  The directory of the specification's scenario (Alice supervises, Bob subscribes, Carol is
  staff) with one more subscriber (Dan) and one more supervisor (Erin).
\<close>

definition scenario_directory :: Firestore where
  "scenario_directory =
     [(0, \<lparr>name = ''Alice'', phoneNumber = ''+1A'', roles = [''SUPERVISOR'']\<rparr>),
      (1, \<lparr>name = ''Bob'', phoneNumber = ''+1B'', roles = [''SUBSCRIBER'']\<rparr>),
      (2, \<lparr>name = ''Carol'', phoneNumber = ''+1C'', roles = [''STAFF'']\<rparr>),
      (3, \<lparr>name = ''Dan'', phoneNumber = ''+1D'', roles = [''SUBSCRIBER'']\<rparr>),
      (4, \<lparr>name = ''Erin'', phoneNumber = ''+1E'', roles = [''SUPERVISOR'']\<rparr>)]"

text \<open>
  A directory in which two records carry one phone number: Bob (a subscriber) and Carol
  (staff) both have \<open>+1C\<close>, and Bob's record comes first in the store's order.
\<close>

definition duplicate_directory :: Firestore where
  "duplicate_directory =
     [(0, \<lparr>name = ''Bob'', phoneNumber = ''+1C'', roles = [''SUBSCRIBER'']\<rparr>),
      (1, \<lparr>name = ''Carol'', phoneNumber = ''+1C'', roles = [''STAFF'']\<rparr>),
      (2, \<lparr>name = ''Alice'', phoneNumber = ''+1A'', roles = [''SUPERVISOR'']\<rparr>),
      (3, \<lparr>name = ''Dan'', phoneNumber = ''+1D'', roles = [''SUBSCRIBER'']\<rparr>)]"

text \<open>
  A directory with a contact (Dave) whose role list is empty; the directory API stores
  such a record when a request carries \<^verbatim>\<open>"roles": []\<close>.
\<close>

definition roleless_directory :: Firestore where
  "roleless_directory =
     [(0, \<lparr>name = ''Alice'', phoneNumber = ''+1A'', roles = [''SUPERVISOR'']\<rparr>),
      (1, \<lparr>name = ''Bob'', phoneNumber = ''+1B'', roles = [''SUBSCRIBER'']\<rparr>),
      (2, \<lparr>name = ''Dave'', phoneNumber = ''+1D'', roles = []\<rparr>)]"

text \<open>
  A gateway state with an empty log, a gateway that accepts every call, and a gateway
  that rejects the first call and accepts every later one.
\<close>

definition no_sends :: World where
  "no_sends = \<lparr>outbox = [], calls = []\<rparr>"

definition every_send_accepted :: Gateway where
  "every_send_accepted k = True"

definition first_send_fails :: Gateway where
  "first_send_fails k = (k \<noteq> 0)"

text \<open>
  Requests to the directory API: a delete for a number that is not in the scenario
  directory, a delete for Bob's number, an add whose role list holds a token outside the
  enumeration (\<^verbatim>\<open>ADMIN\<close>; the enumeration has \<^verbatim>\<open>SUPERVISOR\<close>), and an update with such a token.
\<close>

definition delete_unknown_request :: ApiRequest where
  "delete_unknown_request =
     \<lparr>req_method = ''DELETE'', req_path = ''/+1X'', req_params_phoneNumber = ''+1X'',
      req_body_name = [], req_body_phoneNumber = [], req_body_roles = None\<rparr>"

definition delete_bob_request :: ApiRequest where
  "delete_bob_request =
     \<lparr>req_method = ''DELETE'', req_path = ''/+1B'', req_params_phoneNumber = ''+1B'',
      req_body_name = [], req_body_phoneNumber = [], req_body_roles = None\<rparr>"

definition add_with_unknown_role_request :: ApiRequest where
  "add_with_unknown_role_request =
     \<lparr>req_method = ''POST'', req_path = ''/'', req_params_phoneNumber = [],
      req_body_name = ''Frank'', req_body_phoneNumber = ''+1F'',
      req_body_roles = Some [''SUBSCRIBER'', ''ADMIN'']\<rparr>"

definition update_with_unknown_role_request :: ApiRequest where
  "update_with_unknown_role_request =
     \<lparr>req_method = ''PUT'', req_path = ''/+1B'', req_params_phoneNumber = ''+1B'',
      req_body_name = [], req_body_phoneNumber = [],
      req_body_roles = Some [''OWNER'']\<rparr>"

section \<open>Properties of the document store\<close>

lemma fold_apply_Delete:
  "fold apply_write (map (\<lambda>doc. Delete (fst doc)) S) db =
     filter (\<lambda>doc. fst doc \<notin> fst ` set S) db"
  by (induction S arbitrary: db) (auto intro: filter_cong)

lemma fold_apply_Update:
  "fold apply_write (map (\<lambda>doc. Update (fst doc) rs) S) db =
     map (\<lambda>doc. if fst doc \<in> fst ` set S then (fst doc, (snd doc)\<lparr>roles := rs\<rparr>) else doc) db"
  by (induction S arbitrary: db) auto

text \<open>
  Document references are unique in a store. Under that invariant the references of
  the snapshot of a phone query pick out exactly the documents with that phone number.
\<close>

lemma ref_matches_iff:
  assumes "distinct (map fst db)" and "doc \<in> set db"
  shows "fst doc \<in> fst ` set (where_phoneNumber db p) \<longleftrightarrow> phoneNumber (snd doc) = p"
proof
  assume "fst doc \<in> fst ` set (where_phoneNumber db p)"
  then obtain d where d: "d \<in> set db" "phoneNumber (snd d) = p" "fst d = fst doc"
    by (auto simp: where_phoneNumber_def)
  from assms d have "d = doc"
    by (metis eq_key_imp_eq_value prod.collapse)
  with d show "phoneNumber (snd doc) = p" by simp
next
  assume "phoneNumber (snd doc) = p"
  with assms(2) show "fst doc \<in> fst ` set (where_phoneNumber db p)"
    by (auto simp: where_phoneNumber_def)
qed

lemma updates_ok:
  "list_all (write_ok db) (map (\<lambda>doc. Update (fst doc) rs) (where_phoneNumber db p))"
  by (auto simp: list_all_iff where_phoneNumber_def)

lemma deletes_ok: "list_all (write_ok db) (map (\<lambda>doc. Delete (fst doc)) S)"
  by (auto simp: list_all_iff)

lemma removeUser_filter:
  assumes "distinct (map fst db)"
  shows "removeUser db p = (Inr (), filter (\<lambda>doc. phoneNumber (snd doc) \<noteq> p) db)"
proof -
  have "filter (\<lambda>doc. fst doc \<notin> fst ` set (where_phoneNumber db p)) db
        = filter (\<lambda>doc. phoneNumber (snd doc) \<noteq> p) db"
    by (rule filter_cong) (simp_all add: ref_matches_iff [OF assms])
  then show ?thesis
    by (simp add: removeUser_def batch_commit_def deletes_ok fold_apply_Delete)
qed

lemma removeUser_absent:
  "where_phoneNumber db p = [] \<Longrightarrow> removeUser db p = (Inr (), db)"
  by (simp add: removeUser_def batch_commit_def)

lemma where_phoneNumber_removed:
  "where_phoneNumber (filter (\<lambda>doc. phoneNumber (snd doc) \<noteq> p) db) p = []"
  by (simp add: where_phoneNumber_def)

lemma updateUserRoles_map:
  assumes "distinct (map fst db)" and "where_phoneNumber db p \<noteq> []"
  shows "updateUserRoles db p rs =
     (Inr (), map (\<lambda>doc. if phoneNumber (snd doc) = p
                          then (fst doc, (snd doc)\<lparr>roles := rs\<rparr>) else doc) db)"
proof -
  have "map (\<lambda>doc. if fst doc \<in> fst ` set (where_phoneNumber db p)
                    then (fst doc, (snd doc)\<lparr>roles := rs\<rparr>) else doc) db
        = map (\<lambda>doc. if phoneNumber (snd doc) = p
                      then (fst doc, (snd doc)\<lparr>roles := rs\<rparr>) else doc) db"
    by (rule map_cong) (simp_all add: ref_matches_iff [OF assms(1)])
  with assms(2) show ?thesis
    by (simp add: updateUserRoles_def batch_commit_def updates_ok fold_apply_Update)
qed

lemma updateUserRoles_absent:
  "where_phoneNumber db p = [] \<Longrightarrow>
     updateUserRoles db p rs = (Inl (Error (''No user found with phone number '' @ p)), db)"
  by (simp add: updateUserRoles_def)

text \<open>
  C6. \<^verbatim>\<open>updateUserRoles(phone, roles)\<close>: when no stored record has the phone number, it
  throws the \<^verbatim>\<open>No user found\<close> error and the store is what it was. When one or more records
  have it, the call is one commit of a batch that holds one update per matching record,
  the commit succeeds, and afterwards every record with that phone number has exactly the
  new role list while every other record, and every other field, is unchanged.
  (Document references are unique.)
\<close>

theorem updateUserRoles_all_matches_or_not_found:
  assumes "distinct (map fst db)"
  shows "(where_phoneNumber db p = [] \<longrightarrow>
            updateUserRoles db p rs =
              (Inl (Error (''No user found with phone number '' @ p)), db))
       \<and> (where_phoneNumber db p \<noteq> [] \<longrightarrow>
            updateUserRoles db p rs =
              batch_commit (map (\<lambda>doc. Update (fst doc) rs) (where_phoneNumber db p)) db
          \<and> updateUserRoles db p rs =
              (Inr (), map (\<lambda>doc. if phoneNumber (snd doc) = p
                                   then (fst doc, (snd doc)\<lparr>roles := rs\<rparr>)
                                   else doc) db))"
proof (intro conjI impI)
  assume "where_phoneNumber db p = []"
  then show "updateUserRoles db p rs =
      (Inl (Error (''No user found with phone number '' @ p)), db)"
    by (rule updateUserRoles_absent)
next
  assume "where_phoneNumber db p \<noteq> []"
  then show "updateUserRoles db p rs =
      batch_commit (map (\<lambda>doc. Update (fst doc) rs) (where_phoneNumber db p)) db"
    by (simp add: updateUserRoles_def)
next
  assume "where_phoneNumber db p \<noteq> []"
  with assms show "updateUserRoles db p rs =
      (Inr (), map (\<lambda>doc. if phoneNumber (snd doc) = p
                           then (fst doc, (snd doc)\<lparr>roles := rs\<rparr>) else doc) db)"
    by (rule updateUserRoles_map)
qed

theorem updateUserRoles_all_matches_or_not_found_witness:
  "distinct (map fst duplicate_directory)
   \<and> where_phoneNumber duplicate_directory ''+1X'' = []
   \<and> updateUserRoles duplicate_directory ''+1X'' [''STAFF''] =
       (Inl (Error ''No user found with phone number +1X''), duplicate_directory)
   \<and> where_phoneNumber duplicate_directory ''+1C'' \<noteq> []
   \<and> updateUserRoles duplicate_directory ''+1C'' [''STAFF'', ''SUBSCRIBER''] =
       (Inr (),
        [(0, \<lparr>name = ''Bob'', phoneNumber = ''+1C'', roles = [''STAFF'', ''SUBSCRIBER'']\<rparr>),
         (1, \<lparr>name = ''Carol'', phoneNumber = ''+1C'', roles = [''STAFF'', ''SUBSCRIBER'']\<rparr>),
         (2, \<lparr>name = ''Alice'', phoneNumber = ''+1A'', roles = [''SUPERVISOR'']\<rparr>),
         (3, \<lparr>name = ''Dan'', phoneNumber = ''+1D'', roles = [''SUBSCRIBER'']\<rparr>)])"
proof -
  have d: "distinct (map fst duplicate_directory)"
    by (simp add: duplicate_directory_def)
  have x: "where_phoneNumber duplicate_directory ''+1X'' = []"
    by (simp add: duplicate_directory_def where_phoneNumber_def)
  have c: "where_phoneNumber duplicate_directory ''+1C'' \<noteq> []"
    by (simp add: duplicate_directory_def where_phoneNumber_def)
  have absent: "updateUserRoles duplicate_directory ''+1X'' [''STAFF''] =
      (Inl (Error (''No user found with phone number '' @ ''+1X'')), duplicate_directory)"
    using updateUserRoles_all_matches_or_not_found [OF d, of "''+1X''" "[''STAFF'']"] x
    by blast
  have present: "updateUserRoles duplicate_directory ''+1C'' [''STAFF'', ''SUBSCRIBER''] =
      (Inr (), map (\<lambda>doc. if phoneNumber (snd doc) = ''+1C''
                           then (fst doc, (snd doc)\<lparr>roles := [''STAFF'', ''SUBSCRIBER'']\<rparr>)
                           else doc) duplicate_directory)"
    using updateUserRoles_all_matches_or_not_found
            [OF d, of "''+1C''" "[''STAFF'', ''SUBSCRIBER'']"] c
    by blast
  have after: "map (\<lambda>doc. if phoneNumber (snd doc) = ''+1C''
                           then (fst doc, (snd doc)\<lparr>roles := [''STAFF'', ''SUBSCRIBER'']\<rparr>)
                           else doc) duplicate_directory =
        [(0, \<lparr>name = ''Bob'', phoneNumber = ''+1C'', roles = [''STAFF'', ''SUBSCRIBER'']\<rparr>),
         (1, \<lparr>name = ''Carol'', phoneNumber = ''+1C'', roles = [''STAFF'', ''SUBSCRIBER'']\<rparr>),
         (2, \<lparr>name = ''Alice'', phoneNumber = ''+1A'', roles = [''SUPERVISOR'']\<rparr>),
         (3, \<lparr>name = ''Dan'', phoneNumber = ''+1D'', roles = [''SUBSCRIBER'']\<rparr>)]"
    by (simp add: duplicate_directory_def)
  show ?thesis
    using d x c absent present after by simp
qed

text \<open>
  C8. \<^verbatim>\<open>removeUser(phone)\<close> is one commit of a batch that holds one delete per record
  with that phone number; the commit succeeds and leaves exactly the records with another
  phone number. When no record has the phone number the call succeeds and the store is
  unchanged. Removing the same phone number a second time succeeds and changes nothing:
  the directory after two calls is the directory after one.
  (Document references are unique.)
\<close>

theorem removeUser_deletes_all_matches_idempotent:
  assumes "distinct (map fst db)"
  shows "removeUser db p =
           batch_commit (map (\<lambda>doc. Delete (fst doc)) (where_phoneNumber db p)) db
       \<and> removeUser db p = (Inr (), filter (\<lambda>doc. phoneNumber (snd doc) \<noteq> p) db)
       \<and> (where_phoneNumber db p = [] \<longrightarrow> removeUser db p = (Inr (), db))
       \<and> removeUser (snd (removeUser db p)) p = (Inr (), snd (removeUser db p))"
proof (intro conjI impI)
  show "removeUser db p =
      batch_commit (map (\<lambda>doc. Delete (fst doc)) (where_phoneNumber db p)) db"
    by (simp add: removeUser_def)
next
  show once: "removeUser db p = (Inr (), filter (\<lambda>doc. phoneNumber (snd doc) \<noteq> p) db)"
    using assms by (rule removeUser_filter)
  show "removeUser (snd (removeUser db p)) p = (Inr (), snd (removeUser db p))"
    by (simp add: once removeUser_absent where_phoneNumber_removed)
next
  assume "where_phoneNumber db p = []"
  then show "removeUser db p = (Inr (), db)"
    by (rule removeUser_absent)
qed

theorem removeUser_deletes_all_matches_idempotent_witness:
  "distinct (map fst duplicate_directory)
   \<and> removeUser duplicate_directory ''+1C'' =
       (Inr (),
        [(2, \<lparr>name = ''Alice'', phoneNumber = ''+1A'', roles = [''SUPERVISOR'']\<rparr>),
         (3, \<lparr>name = ''Dan'', phoneNumber = ''+1D'', roles = [''SUBSCRIBER'']\<rparr>)])
   \<and> where_phoneNumber duplicate_directory ''+1X'' = []
   \<and> removeUser duplicate_directory ''+1X'' = (Inr (), duplicate_directory)
   \<and> removeUser (snd (removeUser duplicate_directory ''+1C'')) ''+1C'' =
       (Inr (), snd (removeUser duplicate_directory ''+1C''))"
proof -
  have d: "distinct (map fst duplicate_directory)"
    by (simp add: duplicate_directory_def)
  have x: "where_phoneNumber duplicate_directory ''+1X'' = []"
    by (simp add: duplicate_directory_def where_phoneNumber_def)
  have once: "removeUser duplicate_directory ''+1C'' =
      (Inr (), filter (\<lambda>doc. phoneNumber (snd doc) \<noteq> ''+1C'') duplicate_directory)"
    using removeUser_deletes_all_matches_idempotent [OF d, of "''+1C''"] by blast
  have twice: "removeUser (snd (removeUser duplicate_directory ''+1C'')) ''+1C'' =
      (Inr (), snd (removeUser duplicate_directory ''+1C''))"
    using removeUser_deletes_all_matches_idempotent [OF d, of "''+1C''"] by blast
  have absent: "removeUser duplicate_directory ''+1X'' = (Inr (), duplicate_directory)"
    using removeUser_deletes_all_matches_idempotent [OF d, of "''+1X''"] x by blast
  have after: "filter (\<lambda>doc. phoneNumber (snd doc) \<noteq> ''+1C'') duplicate_directory =
        [(2, \<lparr>name = ''Alice'', phoneNumber = ''+1A'', roles = [''SUPERVISOR'']\<rparr>),
         (3, \<lparr>name = ''Dan'', phoneNumber = ''+1D'', roles = [''SUBSCRIBER'']\<rparr>)]"
    by (simp add: duplicate_directory_def)
  show ?thesis
    using d x once twice absent after by simp
qed

section \<open>Properties of the fan-out\<close>

lemma length_deliveries: "length (deliveries gw k xs) = length xs"
  by (induction xs arbitrary: k) auto

lemma deliveries_nth:
  "i < length xs \<Longrightarrow>
     deliveries gw k xs ! i = \<lparr>sms_to = fst (xs ! i), sms_body = snd (xs ! i), sms_ok = gw (k + i)\<rparr>"
proof (induction xs arbitrary: k i)
  case Nil
  then show ?case by simp
next
  case (Cons x xs)
  then show ?case by (cases i) auto
qed

lemma deliveries_attempts: "map (\<lambda>s. (sms_to s, sms_body s)) (deliveries gw k xs) = xs"
  by (induction xs arbitrary: k) auto

lemma deliveries_all_ok:
  "(\<forall>s \<in> set (deliveries gw k xs). sms_ok s) \<longleftrightarrow> (\<forall>i < length xs. gw (k + i))"
proof (induction xs arbitrary: k)
  case Nil
  show ?case by simp
next
  case (Cons x xs)
  have "(\<forall>i < Suc (length xs). gw (k + i)) \<longleftrightarrow> gw k \<and> (\<forall>i < length xs. gw (Suc k + i))"
    by (auto simp: less_Suc_eq_0_disj)
  with Cons.IH [of "Suc k"] show ?case by simp
qed

lemma map_promises_sendSms:
  "map_promises (\<lambda>x. sendSms gw (dest x) (text_of x)) xs w =
     (map (\<lambda>s. outcome (sms_ok s))
        (deliveries gw (length (outbox w)) (map (\<lambda>x. (dest x, text_of x)) xs)),
      w\<lparr>outbox := outbox w @ deliveries gw (length (outbox w)) (map (\<lambda>x. (dest x, text_of x)) xs)\<rparr>)"
proof (induction xs arbitrary: w)
  case Nil
  show ?case by simp
next
  case (Cons x xs)
  define w1 where
    "w1 = w\<lparr>outbox := outbox w @ [\<lparr>sms_to = dest x, sms_body = text_of x, sms_ok = gw (length (outbox w))\<rparr>]\<rparr>"
  have step: "sendSms gw (dest x) (text_of x) w = (outcome (gw (length (outbox w))), w1)"
    by (simp add: sendSms_def outcome_def w1_def Let_def)
  have len: "length (outbox w1) = Suc (length (outbox w))"
    by (simp add: w1_def)
  show ?case
    by (simp add: step Cons.IH [of w1] len) (simp add: w1_def)
qed

lemma Promise_all_outcomes:
  "Promise_all (map (\<lambda>s. outcome (sms_ok s)) ds) =
     (if \<forall>s \<in> set ds. sms_ok s then Inr () else Inl RestException)"
proof (induction ds)
  case Nil
  show ?case by (simp add: Promise_all_def)
next
  case (Cons d ds)
  then show ?case
    by (auto simp: Promise_all_def outcome_def split: list.splits if_splits)
qed

text \<open>The two queries, in terms of the records of the directory.\<close>

lemma listUsersByRole_Some:
  "listUsersByRole db (Some role) = Inr (filter (\<lambda>u. role \<in> set (roles u)) (map snd db))"
  by (simp add: listUsersByRole_def where_roles_contains_def filter_map comp_def)

lemma listUsersByRole_undefined:
  "listUsersByRole db None = Inl (Error ''Cannot use undefined as a Firestore value'')"
  by (simp add: listUsersByRole_def where_roles_contains_def)

lemma getUserByPhoneNumber_find:
  "getUserByPhoneNumber db p = find (\<lambda>u. phoneNumber u = p) (map snd db)"
  by (induction db) (simp_all add: getUserByPhoneNumber_def where_phoneNumber_def)

text \<open>The two fan-out services, each as one step on the world.\<close>

lemma forwardMessageToAdmins_rejects:
  "forwardMessageToAdmins gw db f m w =
     (Inl (Error ''Cannot use undefined as a Firestore value''),
      w\<lparr>calls := calls w @ [ForwardMessageToAdmins f m]\<rparr>)"
  by (simp add: forwardMessageToAdmins_def Let_def Role_ADMIN_def listUsersByRole_undefined)

lemma broadcastMessage_run:
  "broadcastMessage gw db f m w =
     (let senderName = (case find (\<lambda>u. phoneNumber u = f) (map snd db) of
                          Some s \<Rightarrow> name s | None \<Rightarrow> f);
          ds = deliveries gw (length (outbox w))
                 (map (\<lambda>subscriber. (phoneNumber subscriber, broadcast_text senderName m))
                    (filter (\<lambda>u. Role_SUBSCRIBER \<in> set (roles u) \<and> phoneNumber u \<noteq> f)
                       (map snd db)))
      in (if \<forall>s \<in> set ds. sms_ok s then Inr () else Inl RestException,
          w\<lparr>outbox := outbox w @ ds, calls := calls w @ [BroadcastMessage f m]\<rparr>))"
  by (simp add: broadcastMessage_def broadcast_text_def Let_def listUsersByRole_Some
        getUserByPhoneNumber_find map_promises_sendSms [where dest = phoneNumber]
        Promise_all_outcomes)

lemma deliveries_attempted_each_once:
  assumes "outbox w' = outbox w @ deliveries gw (length (outbox w)) (map (\<lambda>u. (phoneNumber u, txt)) us)"
  shows "attempted_each_once gw w (map phoneNumber us) txt w'"
  unfolding attempted_each_once_def
proof (intro conjI allI impI)
  show "take (length (outbox w)) (outbox w') = outbox w"
    by (simp add: assms)
  show "length (outbox w') = length (outbox w) + length (map phoneNumber us)"
    by (simp add: assms length_deliveries)
next
  fix i
  assume "i < length (map phoneNumber us)"
  then have i: "i < length us" by simp
  then show "outbox w' ! (length (outbox w) + i) =
      \<lparr>sms_to = map phoneNumber us ! i, sms_body = txt, sms_ok = gw (length (outbox w) + i)\<rparr>"
    by (simp add: assms nth_append length_deliveries deliveries_nth)
qed

lemma deliveries_some_failed:
  assumes "\<exists>i < length xs. \<not> gw (k + i)"
  shows "\<not> (\<forall>s \<in> set (deliveries gw k xs). sms_ok s)"
  using assms by (simp add: deliveries_all_ok)

text \<open>
  C5. The fan-out of the two services is \<^verbatim>\<open>recipients.map(user => sendSms(user.phoneNumber, text))\<close>
  followed by \<^verbatim>\<open>await Promise.all(...)\<close>. For every recipient list, every text, every
  gateway state and every assignment \<open>gw\<close> of outcomes to gateway calls: each recipient of
  the list is sent to exactly once, in order, whatever the outcomes of the other sends (no
  retry, no cancellation); each send is logged with the outcome the gateway gave it, so an
  accepted send stays delivered; and when at least one of the sends is rejected, the join
  rejects. The same holds of \<^verbatim>\<open>broadcastMessage\<close> as a whole, whose recipient list is the
  directory's records that hold \<open>SUBSCRIBER\<close> and have another phone number than the
  sender: when a send is rejected the service fails as a whole.
  (\<^verbatim>\<open>forwardMessageToAdmins\<close> has the same fan-out in its text but never reaches it, see
  the section on the outbound text.)
\<close>

theorem fan_out_attempts_all_and_fails_as_a_whole:
  "attempted_each_once gw w (map phoneNumber recipients) txt
     (snd (map_promises (\<lambda>user. sendSms gw (phoneNumber user) txt) recipients w))
   \<and> ((\<exists>i < length recipients. \<not> gw (length (outbox w) + i)) \<longrightarrow>
        Promise_all (fst (map_promises (\<lambda>user. sendSms gw (phoneNumber user) txt) recipients w))
          = Inl RestException)
   \<and> attempted_each_once gw w
       (map phoneNumber
          (filter (\<lambda>u. Role_SUBSCRIBER \<in> set (roles u) \<and> phoneNumber u \<noteq> f) (map snd db)))
       (''Broadcast from ''
          @ (case find (\<lambda>u. phoneNumber u = f) (map snd db) of Some s \<Rightarrow> name s | None \<Rightarrow> f)
          @ '':'' @ [newline] @ m)
       (snd (broadcastMessage gw db f m w))
   \<and> ((\<exists>i < length (filter (\<lambda>u. Role_SUBSCRIBER \<in> set (roles u) \<and> phoneNumber u \<noteq> f)
                       (map snd db)).
          \<not> gw (length (outbox w) + i)) \<longrightarrow>
        fst (broadcastMessage gw db f m w) = Inl RestException)"
proof (intro conjI impI)
  show "attempted_each_once gw w (map phoneNumber recipients) txt
     (snd (map_promises (\<lambda>user. sendSms gw (phoneNumber user) txt) recipients w))"
    by (rule deliveries_attempted_each_once)
       (simp add: map_promises_sendSms [where dest = phoneNumber and text_of = "\<lambda>_. txt"])
next
  assume "\<exists>i < length recipients. \<not> gw (length (outbox w) + i)"
  then have "\<not> (\<forall>s \<in> set (deliveries gw (length (outbox w))
      (map (\<lambda>user. (phoneNumber user, txt)) recipients)). sms_ok s)"
    by (intro deliveries_some_failed) simp
  then show "Promise_all (fst (map_promises (\<lambda>user. sendSms gw (phoneNumber user) txt) recipients w))
      = Inl RestException"
    by (simp add: map_promises_sendSms [where dest = phoneNumber and text_of = "\<lambda>_. txt"]
          Promise_all_outcomes)
next
  show "attempted_each_once gw w
       (map phoneNumber
          (filter (\<lambda>u. Role_SUBSCRIBER \<in> set (roles u) \<and> phoneNumber u \<noteq> f) (map snd db)))
       (''Broadcast from ''
          @ (case find (\<lambda>u. phoneNumber u = f) (map snd db) of Some s \<Rightarrow> name s | None \<Rightarrow> f)
          @ '':'' @ [newline] @ m)
       (snd (broadcastMessage gw db f m w))"
    by (rule deliveries_attempted_each_once)
       (simp add: broadcastMessage_run Let_def broadcast_text_def)
next
  assume "\<exists>i < length (filter (\<lambda>u. Role_SUBSCRIBER \<in> set (roles u) \<and> phoneNumber u \<noteq> f)
                       (map snd db)).
          \<not> gw (length (outbox w) + i)"
  then have "\<not> (\<forall>s \<in> set (deliveries gw (length (outbox w))
      (map (\<lambda>subscriber. (phoneNumber subscriber,
              broadcast_text
                (case find (\<lambda>u. phoneNumber u = f) (map snd db) of Some s \<Rightarrow> name s | None \<Rightarrow> f) m))
         (filter (\<lambda>u. Role_SUBSCRIBER \<in> set (roles u) \<and> phoneNumber u \<noteq> f) (map snd db)))).
      sms_ok s)"
    by (intro deliveries_some_failed) simp
  then show "fst (broadcastMessage gw db f m w) = Inl RestException"
    by (simp add: broadcastMessage_run Let_def)
qed

lemma scenario_subscribers_but_carol:
  "filter (\<lambda>u. Role_SUBSCRIBER \<in> set (roles u) \<and> phoneNumber u \<noteq> ''+1C'')
      (map snd scenario_directory) =
     [\<lparr>name = ''Bob'', phoneNumber = ''+1B'', roles = [''SUBSCRIBER'']\<rparr>,
      \<lparr>name = ''Dan'', phoneNumber = ''+1D'', roles = [''SUBSCRIBER'']\<rparr>]"
  by (simp add: scenario_directory_def Role_SUBSCRIBER_def)

lemma scenario_find:
  "find (\<lambda>u. phoneNumber u = ''+1A'') (map snd scenario_directory) =
     Some \<lparr>name = ''Alice'', phoneNumber = ''+1A'', roles = [''SUPERVISOR'']\<rparr>"
  "find (\<lambda>u. phoneNumber u = ''+1B'') (map snd scenario_directory) =
     Some \<lparr>name = ''Bob'', phoneNumber = ''+1B'', roles = [''SUBSCRIBER'']\<rparr>"
  "find (\<lambda>u. phoneNumber u = ''+1C'') (map snd scenario_directory) =
     Some \<lparr>name = ''Carol'', phoneNumber = ''+1C'', roles = [''STAFF'']\<rparr>"
  "find (\<lambda>u. phoneNumber u = ''+1X'') (map snd scenario_directory) = None"
  by (simp_all add: scenario_directory_def)

theorem fan_out_attempts_all_and_fails_as_a_whole_witness:
  "(\<exists>i < length [\<lparr>name = ''Bob'', phoneNumber = ''+1B'', roles = [''SUBSCRIBER'']\<rparr>,
                  \<lparr>name = ''Dan'', phoneNumber = ''+1D'', roles = [''SUBSCRIBER'']\<rparr>].
       \<not> first_send_fails (length (outbox no_sends) + i))
   \<and> Promise_all (fst (map_promises (\<lambda>user. sendSms first_send_fails (phoneNumber user) ''alert'')
        [\<lparr>name = ''Bob'', phoneNumber = ''+1B'', roles = [''SUBSCRIBER'']\<rparr>,
         \<lparr>name = ''Dan'', phoneNumber = ''+1D'', roles = [''SUBSCRIBER'']\<rparr>] no_sends))
       = Inl RestException
   \<and> attempted_each_once first_send_fails no_sends [''+1B'', ''+1D''] ''alert''
       (snd (map_promises (\<lambda>user. sendSms first_send_fails (phoneNumber user) ''alert'')
        [\<lparr>name = ''Bob'', phoneNumber = ''+1B'', roles = [''SUBSCRIBER'']\<rparr>,
         \<lparr>name = ''Dan'', phoneNumber = ''+1D'', roles = [''SUBSCRIBER'']\<rparr>] no_sends))
   \<and> (\<exists>i < length (filter (\<lambda>u. Role_SUBSCRIBER \<in> set (roles u) \<and> phoneNumber u \<noteq> ''+1C'')
                      (map snd scenario_directory)).
       \<not> first_send_fails (length (outbox no_sends) + i))
   \<and> fst (broadcastMessage first_send_fails scenario_directory ''+1C'' ''fire'' no_sends)
       = Inl RestException
   \<and> attempted_each_once first_send_fails no_sends [''+1B'', ''+1D'']
       (''Broadcast from Carol:'' @ [newline] @ ''fire'')
       (snd (broadcastMessage first_send_fails scenario_directory ''+1C'' ''fire'' no_sends))"
proof -
  let ?two = "[\<lparr>name = ''Bob'', phoneNumber = ''+1B'', roles = [''SUBSCRIBER'']\<rparr>,
               \<lparr>name = ''Dan'', phoneNumber = ''+1D'', roles = [''SUBSCRIBER'']\<rparr>]"
  have a: "\<exists>i < length ?two. \<not> first_send_fails (length (outbox no_sends) + i)"
    by (simp add: first_send_fails_def no_sends_def)
  have b: "\<exists>i < length (filter (\<lambda>u. Role_SUBSCRIBER \<in> set (roles u) \<and> phoneNumber u \<noteq> ''+1C'')
                      (map snd scenario_directory)).
       \<not> first_send_fails (length (outbox no_sends) + i)"
    by (simp add: scenario_subscribers_but_carol first_send_fails_def no_sends_def)
  note inst = fan_out_attempts_all_and_fails_as_a_whole
         [of first_send_fails no_sends "?two" "''alert''" "''+1C''" scenario_directory "''fire''"]
  from inst have gen: "attempted_each_once first_send_fails no_sends (map phoneNumber ?two) ''alert''
       (snd (map_promises (\<lambda>user. sendSms first_send_fails (phoneNumber user) ''alert'')
          ?two no_sends))"
    by blast
  from inst a have gen_fails:
    "Promise_all (fst (map_promises (\<lambda>user. sendSms first_send_fails (phoneNumber user) ''alert'')
        ?two no_sends)) = Inl RestException"
    by blast
  from inst have bc: "attempted_each_once first_send_fails no_sends
       (map phoneNumber
          (filter (\<lambda>u. Role_SUBSCRIBER \<in> set (roles u) \<and> phoneNumber u \<noteq> ''+1C'')
             (map snd scenario_directory)))
       (''Broadcast from ''
          @ (case find (\<lambda>u. phoneNumber u = ''+1C'') (map snd scenario_directory) of
               Some s \<Rightarrow> name s | None \<Rightarrow> ''+1C'')
          @ '':'' @ [newline] @ ''fire'')
       (snd (broadcastMessage first_send_fails scenario_directory ''+1C'' ''fire'' no_sends))"
    by blast
  from inst b have bc_fails:
      "fst (broadcastMessage first_send_fails scenario_directory ''+1C'' ''fire'' no_sends)
        = Inl RestException"
    by blast
  from gen have gen': "attempted_each_once first_send_fails no_sends [''+1B'', ''+1D''] ''alert''
       (snd (map_promises (\<lambda>user. sendSms first_send_fails (phoneNumber user) ''alert'')
          ?two no_sends))"
    by simp
  from bc have bc': "attempted_each_once first_send_fails no_sends [''+1B'', ''+1D'']
       (''Broadcast from Carol:'' @ [newline] @ ''fire'')
       (snd (broadcastMessage first_send_fails scenario_directory ''+1C'' ''fire'' no_sends))"
    by (simp add: scenario_subscribers_but_carol scenario_find)
  from a b gen_fails bc_fails gen' bc' show ?thesis by blast
qed

section \<open>Properties of the outbound text\<close>

lemma wrapped_text_differs: "p \<noteq> [] \<Longrightarrow> p @ m \<noteq> m"
  by simp

lemma broadcast_text_differs: "broadcast_text n m \<noteq> m"
  using wrapped_text_differs [of "''Broadcast from '' @ n @ '':'' @ [newline]" m]
  by (simp add: broadcast_text_def)

text \<open>
  The broadcast, for every directory, sender, message, gateway and gateway state: every
  record of the directory that holds \<open>SUBSCRIBER\<close> and has another phone number than the
  sender is sent \<^verbatim>\<open>Broadcast from <senderName>:\<close>, a newline and the message, where the
  sender name is the name of the first record of the directory with the sender's phone
  number, and the phone number itself when there is none; no text sent is the bare message.
\<close>

lemma broadcast_text_names_the_sender:
  "sent_during w (snd (broadcastMessage gw db f m w)) =
     map (\<lambda>subscriber. (phoneNumber subscriber,
            ''Broadcast from ''
              @ (case find (\<lambda>u. phoneNumber u = f) (map snd db) of Some s \<Rightarrow> name s | None \<Rightarrow> f)
              @ '':'' @ [newline] @ m))
       (filter (\<lambda>u. Role_SUBSCRIBER \<in> set (roles u) \<and> phoneNumber u \<noteq> f) (map snd db))
   \<and> m \<notin> set (map snd (sent_during w (snd (broadcastMessage gw db f m w))))"
proof -
  have bc: "sent_during w (snd (broadcastMessage gw db f m w)) =
     map (\<lambda>subscriber. (phoneNumber subscriber,
            broadcast_text
              (case find (\<lambda>u. phoneNumber u = f) (map snd db) of Some s \<Rightarrow> name s | None \<Rightarrow> f) m))
       (filter (\<lambda>u. Role_SUBSCRIBER \<in> set (roles u) \<and> phoneNumber u \<noteq> f) (map snd db))"
    by (simp add: broadcastMessage_run Let_def sent_during_def deliveries_attempts)
  have "m \<notin> set (map snd (sent_during w (snd (broadcastMessage gw db f m w))))"
    using broadcast_text_differs
            [of "case find (\<lambda>u. phoneNumber u = f) (map snd db) of Some s \<Rightarrow> name s | None \<Rightarrow> f" m,
             THEN not_sym]
    by (auto simp: bc)
  with bc show ?thesis
    by (simp add: broadcast_text_def)
qed

text \<open>
  C10. The escalation does not deliver its text. \<^verbatim>\<open>forwardMessageToAdmins\<close> builds the text
  \<^verbatim>\<open>Message from <fromNumber>:\<close>, newline, message for each recipient, but it asks the store
  for the users with the role \<^verbatim>\<open>Role.ADMIN\<close>, which the enumeration does not have: the query
  is refused and the function fails before any send. In the scenario directory Alice
  holds \<open>SUPERVISOR\<close>; an escalation of Bob's message reaches nobody, for every gateway.
\<close>

theorem escalation_service_fails_before_any_send:
  "\<lparr>name = ''Alice'', phoneNumber = ''+1A'', roles = [''SUPERVISOR'']\<rparr>
      \<in> set (map snd scenario_directory)
   \<and> fst (forwardMessageToAdmins gw scenario_directory ''+1B'' ''help'' no_sends) =
       Inl (Error ''Cannot use undefined as a Firestore value'')
   \<and> outbox (snd (forwardMessageToAdmins gw scenario_directory ''+1B'' ''help'' no_sends)) = []"
  by (simp add: forwardMessageToAdmins_rejects scenario_directory_def no_sends_def)

section \<open>Properties of the inbound SMS handler\<close>

lemma getUserByPhoneNumber_None_iff:
  "getUserByPhoneNumber db p = None \<longleftrightarrow> (\<forall>u \<in> set (listUsers db). phoneNumber u \<noteq> p)"
proof -
  have "getUserByPhoneNumber db p = None \<longleftrightarrow> where_phoneNumber db p = []"
    by (cases "where_phoneNumber db p") (simp_all add: getUserByPhoneNumber_def)
  also have "\<dots> \<longleftrightarrow> (\<forall>u \<in> set (listUsers db). phoneNumber u \<noteq> p)"
    by (auto simp: where_phoneNumber_def listUsers_def filter_empty_conv)
  finally show ?thesis .
qed

lemma getUserByPhoneNumber_Some_member:
  "getUserByPhoneNumber db p = Some u \<Longrightarrow> u \<in> set (listUsers db) \<and> phoneNumber u = p"
proof -
  assume a: "getUserByPhoneNumber db p = Some u"
  then obtain d ds where w: "where_phoneNumber db p = d # ds" and u: "u = snd d"
    by (cases "where_phoneNumber db p") (auto simp: getUserByPhoneNumber_def)
  from w have "d \<in> set (where_phoneNumber db p)" by simp
  then have "d \<in> set db" "phoneNumber (snd d) = p"
    by (auto simp: where_phoneNumber_def)
  with u show ?thesis by (auto simp: listUsers_def)
qed

text \<open>
  The lookup returns the first record with the number. When no two records share a
  phone number, every contact is the record its own number resolves to.
\<close>

lemma unique_phone_resolves:
  assumes "distinct (map phoneNumber (listUsers db))" and "C \<in> set (listUsers db)"
  shows "getUserByPhoneNumber db (phoneNumber C) = Some C"
  using assms
proof (induction db)
  case Nil
  then show ?case by (simp add: listUsers_def)
next
  case (Cons d ds)
  show ?case
  proof (cases "snd d = C")
    case True
    then show ?thesis
      by (simp add: getUserByPhoneNumber_def where_phoneNumber_def)
  next
    case False
    with Cons.prems have C: "C \<in> set (listUsers ds)"
      by (auto simp: listUsers_def)
    with Cons.prems have "phoneNumber (snd d) \<noteq> phoneNumber C"
      by (auto simp: listUsers_def)
    moreover from Cons.prems have "distinct (map phoneNumber (listUsers ds))"
      by (simp add: listUsers_def)
    ultimately show ?thesis
      using Cons.IH C by (simp add: getUserByPhoneNumber_def where_phoneNumber_def)
  qed
qed

lemmas role_defs = Role_SUBSCRIBER_def Role_STAFF_def Role_SUPERVISOR_def

text \<open>
  The handler's four paths: a request without a sender or without a body; the escalation
  path, on which the call of \<^verbatim>\<open>forwardMessageToSupervisor\<close> throws; the broadcast path;
  and the path on which neither condition of the handler holds.
\<close>

lemma handleSms_missing_parameters:
  assumes "req_From req = [] \<or> req_Body req = []"
  shows "handleSmsFunction gw db req w =
     (\<lparr>status = 400, payload = Text ''Missing required parameters''\<rparr>, w)"
  using assms by (auto simp add: handleSmsFunction_def Let_def)

lemma handleSms_escalation_path:
  assumes "req_From req \<noteq> []" and "req_Body req \<noteq> []"
    and "case getUserByPhoneNumber db (req_From req) of
           None \<Rightarrow> True
         | Some u \<Rightarrow> Role_SUBSCRIBER \<in> set (roles u) \<and> Role_STAFF \<notin> set (roles u)
                      \<and> Role_SUPERVISOR \<notin> set (roles u)"
  shows "handleSmsFunction gw db req w = (internal_error, w)"
  using assms
  by (simp add: handleSmsFunction_def Let_def internal_error_def forwardMessageToSupervisor_def)

lemma handleSms_broadcast_path:
  assumes "req_From req \<noteq> []" and "req_Body req \<noteq> []"
    and "getUserByPhoneNumber db (req_From req) = Some u"
    and "Role_STAFF \<in> set (roles u) \<or> Role_SUPERVISOR \<in> set (roles u)"
  shows "handleSmsFunction gw db req w =
     (case broadcastMessage gw db (req_From req) (req_Body req) w of
        (Inl e, w1) \<Rightarrow> (internal_error, w1)
      | (Inr _, w1) \<Rightarrow>
          (case sendSms gw (req_From req) broadcast_confirmation w1 of
             (Inl e, w2) \<Rightarrow> (internal_error, w2)
           | (Inr _, w2) \<Rightarrow> (twiml_ok, w2)))"
  using assms
  by (auto simp add: handleSmsFunction_def Let_def twiml_ok_def internal_error_def
        broadcast_confirmation_def split: prod.splits sum.splits option.splits)

lemma handleSms_idle_path:
  assumes "req_From req \<noteq> []" and "req_Body req \<noteq> []"
    and "getUserByPhoneNumber db (req_From req) = Some u"
    and "Role_SUBSCRIBER \<notin> set (roles u)" and "Role_STAFF \<notin> set (roles u)"
    and "Role_SUPERVISOR \<notin> set (roles u)"
  shows "handleSmsFunction gw db req w = (twiml_ok, w)"
  using assms
  by (simp add: handleSmsFunction_def Let_def twiml_ok_def)

lemma sendSms_run:
  "sendSms gw dest txt w =
     (if gw (length (outbox w)) then Inr () else Inl RestException,
      w\<lparr>outbox := outbox w @ [\<lparr>sms_to = dest, sms_body = txt, sms_ok = gw (length (outbox w))\<rparr>]\<rparr>)"
  by (simp add: sendSms_def Let_def)

lemma handleSms_broadcast_run:
  assumes "req_From req \<noteq> []" and "req_Body req \<noteq> []"
    and "getUserByPhoneNumber db (req_From req) = Some u"
    and "Role_STAFF \<in> set (roles u) \<or> Role_SUPERVISOR \<in> set (roles u)"
  shows "sent_during w (snd (handleSmsFunction gw db req w)) =
           map (\<lambda>subscriber. (phoneNumber subscriber, broadcast_text (name u) (req_Body req)))
             (filter (\<lambda>u. Role_SUBSCRIBER \<in> set (roles u) \<and> phoneNumber u \<noteq> req_From req)
                (map snd db))
           @ (if \<forall>i < length (filter (\<lambda>u. Role_SUBSCRIBER \<in> set (roles u)
                                            \<and> phoneNumber u \<noteq> req_From req) (map snd db)).
                    gw (length (outbox w) + i)
              then [(req_From req, broadcast_confirmation)] else [])"
    and "calls (snd (handleSmsFunction gw db req w)) =
           calls w @ [BroadcastMessage (req_From req) (req_Body req)]"
    and "fst (handleSmsFunction gw db req w) =
           (if \<forall>i < Suc (length (filter (\<lambda>u. Role_SUBSCRIBER \<in> set (roles u)
                                            \<and> phoneNumber u \<noteq> req_From req) (map snd db))).
                    gw (length (outbox w) + i)
            then twiml_ok else internal_error)"
proof -
  from assms(3) have found: "find (\<lambda>u. phoneNumber u = req_From req) (map snd db) = Some u"
    by (simp add: getUserByPhoneNumber_find)
  show "sent_during w (snd (handleSmsFunction gw db req w)) =
           map (\<lambda>subscriber. (phoneNumber subscriber, broadcast_text (name u) (req_Body req)))
             (filter (\<lambda>u. Role_SUBSCRIBER \<in> set (roles u) \<and> phoneNumber u \<noteq> req_From req)
                (map snd db))
           @ (if \<forall>i < length (filter (\<lambda>u. Role_SUBSCRIBER \<in> set (roles u)
                                            \<and> phoneNumber u \<noteq> req_From req) (map snd db)).
                    gw (length (outbox w) + i)
              then [(req_From req, broadcast_confirmation)] else [])"
    by (auto simp add: handleSms_broadcast_path [OF assms] broadcastMessage_run sendSms_run found
          Let_def sent_during_def deliveries_attempts deliveries_all_ok length_deliveries)
  show "calls (snd (handleSmsFunction gw db req w)) =
           calls w @ [BroadcastMessage (req_From req) (req_Body req)]"
    by (auto simp add: handleSms_broadcast_path [OF assms] broadcastMessage_run sendSms_run found
          Let_def)
  show "fst (handleSmsFunction gw db req w) =
           (if \<forall>i < Suc (length (filter (\<lambda>u. Role_SUBSCRIBER \<in> set (roles u)
                                            \<and> phoneNumber u \<noteq> req_From req) (map snd db))).
                    gw (length (outbox w) + i)
            then twiml_ok else internal_error)"
    by (auto simp add: handleSms_broadcast_path [OF assms] broadcastMessage_run sendSms_run found
          Let_def deliveries_all_ok length_deliveries less_Suc_eq all_conj_distrib)
qed

text \<open>
  When the broadcast's fan-out fails, the handler answers 500 and does nothing more: the
  gateway is left as the fan-out left it, with no confirmation and no compensation.
\<close>

lemma handleSms_failed_broadcast_is_left_as_it_is:
  assumes "req_From req \<noteq> []" and "req_Body req \<noteq> []"
    and "getUserByPhoneNumber db (req_From req) = Some u"
    and "Role_STAFF \<in> set (roles u) \<or> Role_SUPERVISOR \<in> set (roles u)"
    and "fst (broadcastMessage gw db (req_From req) (req_Body req) w) = Inl e"
  shows "handleSmsFunction gw db req w =
     (\<lparr>status = 500, payload = Text ''Internal Server Error''\<rparr>,
      snd (broadcastMessage gw db (req_From req) (req_Body req) w))"
proof -
  obtain r w1 where run: "broadcastMessage gw db (req_From req) (req_Body req) w = (r, w1)"
    by (cases "broadcastMessage gw db (req_From req) (req_Body req) w")
  with assms(5) have "r = Inl e" by simp
  with run show ?thesis
    by (simp add: handleSms_broadcast_path [OF assms(1-4)] internal_error_def)
qed

text \<open>
  C1. The escalation of a message from an unknown sender does not happen. The handler
  calls \<^verbatim>\<open>forwardMessageToSupervisor\<close>, which no module defines: the call throws, the
  \<^verbatim>\<open>catch\<close> block answers 500 and nothing is sent. In the scenario directory no record
  has the number \<open>+1X\<close> and Alice holds \<open>SUPERVISOR\<close>; a message from \<open>+1X\<close> is answered 500
  and reaches nobody, for every gateway.
\<close>

theorem unrecognized_sender_is_answered_500_and_nothing_is_sent:
  "''+1X'' \<notin> set (map phoneNumber (map snd scenario_directory))
   \<and> \<lparr>name = ''Alice'', phoneNumber = ''+1A'', roles = [''SUPERVISOR'']\<rparr>
        \<in> set (map snd scenario_directory)
   \<and> handleSmsFunction gw scenario_directory \<lparr>req_From = ''+1X'', req_Body = ''spam''\<rparr> no_sends =
       (\<lparr>status = 500, payload = Text ''Internal Server Error''\<rparr>, no_sends)"
proof -
  have path: "case getUserByPhoneNumber scenario_directory
                     (req_From \<lparr>req_From = ''+1X'', req_Body = ''spam''\<rparr>) of
           None \<Rightarrow> True
         | Some u \<Rightarrow> Role_SUBSCRIBER \<in> set (roles u) \<and> Role_STAFF \<notin> set (roles u)
                      \<and> Role_SUPERVISOR \<notin> set (roles u)"
    by (simp add: getUserByPhoneNumber_find scenario_find)
  have "handleSmsFunction gw scenario_directory \<lparr>req_From = ''+1X'', req_Body = ''spam''\<rparr> no_sends =
       (\<lparr>status = 500, payload = Text ''Internal Server Error''\<rparr>, no_sends)"
    by (simp add: handleSms_escalation_path [OF _ _ path] internal_error_def)
  then show ?thesis
    by (simp add: scenario_directory_def)
qed

text \<open>
  C2, as stated, fails in two ways. First, when two records share a phone number: Carol
  holds \<open>STAFF\<close> and has the number \<open>+1C\<close>, but the lookup (\<^verbatim>\<open>limit(1)\<close>) returns Bob's record,
  which comes first and holds only \<open>SUBSCRIBER\<close>, so the handler does not take the
  broadcast path: the request is answered 500 and the subscriber Dan is sent nothing. Second, when the request has no
  body: Carol is the only record with \<open>+1C\<close> in the scenario directory, and her request
  with an empty body is answered 400 with nothing sent.
\<close>

theorem staff_record_behind_a_duplicate_is_not_broadcast:
  "\<lparr>name = ''Carol'', phoneNumber = ''+1C'', roles = [''STAFF'']\<rparr>
      \<in> set (map snd duplicate_directory)
   \<and> Role_STAFF \<in> set (roles \<lparr>name = ''Carol'', phoneNumber = ''+1C'', roles = [''STAFF'']\<rparr>)
   \<and> \<lparr>name = ''Dan'', phoneNumber = ''+1D'', roles = [''SUBSCRIBER'']\<rparr>
      \<in> set (map snd duplicate_directory)
   \<and> Role_SUBSCRIBER \<in> set (roles \<lparr>name = ''Dan'', phoneNumber = ''+1D'', roles = [''SUBSCRIBER'']\<rparr>)
   \<and> handleSmsFunction every_send_accepted duplicate_directory
       \<lparr>req_From = ''+1C'', req_Body = ''fire drill''\<rparr> no_sends =
       (\<lparr>status = 500, payload = Text ''Internal Server Error''\<rparr>, no_sends)
   \<and> find (\<lambda>u. phoneNumber u = ''+1C'') (map snd scenario_directory) =
       Some \<lparr>name = ''Carol'', phoneNumber = ''+1C'', roles = [''STAFF'']\<rparr>
   \<and> handleSmsFunction every_send_accepted scenario_directory
       \<lparr>req_From = ''+1C'', req_Body = []\<rparr> no_sends =
       (\<lparr>status = 400, payload = Text ''Missing required parameters''\<rparr>, no_sends)"
proof -
  let ?req = "\<lparr>req_From = ''+1C'', req_Body = ''fire drill''\<rparr>"
  have first: "getUserByPhoneNumber duplicate_directory ''+1C'' =
      Some \<lparr>name = ''Bob'', phoneNumber = ''+1C'', roles = [''SUBSCRIBER'']\<rparr>"
    by (simp add: getUserByPhoneNumber_def where_phoneNumber_def duplicate_directory_def)
  have path: "case getUserByPhoneNumber duplicate_directory (req_From ?req) of
           None \<Rightarrow> True
         | Some u \<Rightarrow> Role_SUBSCRIBER \<in> set (roles u) \<and> Role_STAFF \<notin> set (roles u)
                      \<and> Role_SUPERVISOR \<notin> set (roles u)"
    by (simp add: first role_defs)
  have sent: "handleSmsFunction every_send_accepted duplicate_directory ?req no_sends =
       (\<lparr>status = 500, payload = Text ''Internal Server Error''\<rparr>, no_sends)"
    by (simp add: handleSms_escalation_path [OF _ _ path] internal_error_def)
  have empty: "handleSmsFunction every_send_accepted scenario_directory
       \<lparr>req_From = ''+1C'', req_Body = []\<rparr> no_sends =
       (\<lparr>status = 400, payload = Text ''Missing required parameters''\<rparr>, no_sends)"
    by (simp add: handleSms_missing_parameters)
  have members: "\<lparr>name = ''Carol'', phoneNumber = ''+1C'', roles = [''STAFF'']\<rparr>
      \<in> set (map snd duplicate_directory)"
    "Role_STAFF \<in> set (roles \<lparr>name = ''Carol'', phoneNumber = ''+1C'', roles = [''STAFF'']\<rparr>)"
    "\<lparr>name = ''Dan'', phoneNumber = ''+1D'', roles = [''SUBSCRIBER'']\<rparr>
      \<in> set (map snd duplicate_directory)"
    "Role_SUBSCRIBER \<in> set (roles \<lparr>name = ''Dan'', phoneNumber = ''+1D'', roles = [''SUBSCRIBER'']\<rparr>)"
    by (simp_all add: duplicate_directory_def role_defs)
  from members sent empty scenario_find(3) show ?thesis by blast
qed

text \<open>
  C2, amended. For a request with a non-empty sender and a non-empty body whose sender's
  phone number resolves (first record of the directory with that number) to a contact \<open>C\<close>
  holding \<open>STAFF\<close> or \<open>SUPERVISOR\<close>: the handler enters the broadcast service once and sends
  \<^verbatim>\<open>Broadcast from <C's name>:\<close>, newline and the message to every record of the directory
  that holds \<open>SUBSCRIBER\<close> and has another phone number than the sender. If the gateway
  accepts every one of these sends, exactly one more message follows, the confirmation to
  the sender, and it is the only message to the sender's number; otherwise nothing
  follows.
\<close>

theorem resolved_originator_broadcasts_then_confirms:
  assumes "req_From req \<noteq> []" and "req_Body req \<noteq> []"
    and "find (\<lambda>u. phoneNumber u = req_From req) (map snd db) = Some C"
    and "Role_STAFF \<in> set (roles C) \<or> Role_SUPERVISOR \<in> set (roles C)"
  shows "(let recipients = filter (\<lambda>u. Role_SUBSCRIBER \<in> set (roles u)
                                       \<and> phoneNumber u \<noteq> req_From req) (map snd db);
              broadcast = map (\<lambda>subscriber. (phoneNumber subscriber,
                                 ''Broadcast from '' @ name C @ '':'' @ [newline] @ req_Body req))
                            recipients;
              w' = snd (handleSmsFunction gw db req w)
          in calls w' = calls w @ [BroadcastMessage (req_From req) (req_Body req)]
           \<and> ((\<forall>i < length recipients. gw (length (outbox w) + i)) \<longrightarrow>
                sent_during w w' =
                  broadcast @ [(req_From req, ''Your message has been broadcast to all subscribers.'')]
              \<and> length (filter (\<lambda>a. fst a = req_From req) (sent_during w w')) = 1)
           \<and> (\<not> (\<forall>i < length recipients. gw (length (outbox w) + i)) \<longrightarrow>
                sent_during w w' = broadcast))"
proof -
  define recipients where
    "recipients = filter (\<lambda>u. Role_SUBSCRIBER \<in> set (roles u) \<and> phoneNumber u \<noteq> req_From req)
                    (map snd db)"
  define broadcast where
    "broadcast = map (\<lambda>subscriber. (phoneNumber subscriber,
                        ''Broadcast from '' @ name C @ '':'' @ [newline] @ req_Body req))
                   recipients"
  from assms(3) have resolved: "getUserByPhoneNumber db (req_From req) = Some C"
    by (simp add: getUserByPhoneNumber_find)
  have sent: "sent_during w (snd (handleSmsFunction gw db req w)) =
      broadcast @ (if \<forall>i < length recipients. gw (length (outbox w) + i)
                   then [(req_From req, ''Your message has been broadcast to all subscribers.'')]
                   else [])"
    by (simp add: handleSms_broadcast_run(1) [OF assms(1,2) resolved assms(4)]
          recipients_def broadcast_def broadcast_text_def broadcast_confirmation_def)
  have none: "filter (\<lambda>a. fst a = req_From req) broadcast = []"
    by (auto simp: broadcast_def recipients_def filter_empty_conv)
  have called: "calls (snd (handleSmsFunction gw db req w)) =
      calls w @ [BroadcastMessage (req_From req) (req_Body req)]"
    by (rule handleSms_broadcast_run(2) [OF assms(1,2) resolved assms(4)])
  show ?thesis
    unfolding Let_def recipients_def [symmetric] broadcast_def [symmetric]
    using called by (simp add: sent none)
qed

theorem resolved_originator_broadcasts_then_confirms_witness:
  "find (\<lambda>u. phoneNumber u = ''+1C'') (map snd scenario_directory) =
       Some \<lparr>name = ''Carol'', phoneNumber = ''+1C'', roles = [''STAFF'']\<rparr>
   \<and> Role_STAFF \<in> set (roles \<lparr>name = ''Carol'', phoneNumber = ''+1C'', roles = [''STAFF'']\<rparr>)
   \<and> calls (snd (handleSmsFunction every_send_accepted scenario_directory
               \<lparr>req_From = ''+1C'', req_Body = ''fire drill''\<rparr> no_sends)) =
       [BroadcastMessage ''+1C'' ''fire drill'']
   \<and> sent_during no_sends
       (snd (handleSmsFunction every_send_accepted scenario_directory
               \<lparr>req_From = ''+1C'', req_Body = ''fire drill''\<rparr> no_sends)) =
       [(''+1B'', ''Broadcast from Carol:'' @ [newline] @ ''fire drill''),
        (''+1D'', ''Broadcast from Carol:'' @ [newline] @ ''fire drill''),
        (''+1C'', ''Your message has been broadcast to all subscribers.'')]
   \<and> sent_during no_sends
       (snd (handleSmsFunction first_send_fails scenario_directory
               \<lparr>req_From = ''+1C'', req_Body = ''fire drill''\<rparr> no_sends)) =
       [(''+1B'', ''Broadcast from Carol:'' @ [newline] @ ''fire drill''),
        (''+1D'', ''Broadcast from Carol:'' @ [newline] @ ''fire drill'')]"
proof -
  let ?req = "\<lparr>req_From = ''+1C'', req_Body = ''fire drill''\<rparr>"
  let ?carol = "\<lparr>name = ''Carol'', phoneNumber = ''+1C'', roles = [''STAFF'']\<rparr>"
  have h1: "req_From ?req \<noteq> []" and h2: "req_Body ?req \<noteq> []"
    by simp_all
  have h3: "find (\<lambda>u. phoneNumber u = req_From ?req) (map snd scenario_directory) = Some ?carol"
    by (simp add: scenario_find)
  have h4: "Role_STAFF \<in> set (roles ?carol) \<or> Role_SUPERVISOR \<in> set (roles ?carol)"
    by (simp add: Role_STAFF_def)
  from resolved_originator_broadcasts_then_confirms [OF h1 h2 h3 h4, of every_send_accepted no_sends]
  have run1: "calls (snd (handleSmsFunction every_send_accepted scenario_directory ?req no_sends)) =
       [BroadcastMessage ''+1C'' ''fire drill'']"
    "sent_during no_sends
       (snd (handleSmsFunction every_send_accepted scenario_directory ?req no_sends)) =
       [(''+1B'', ''Broadcast from Carol:'' @ [newline] @ ''fire drill''),
        (''+1D'', ''Broadcast from Carol:'' @ [newline] @ ''fire drill''),
        (''+1C'', ''Your message has been broadcast to all subscribers.'')]"
    by (simp_all add: Let_def scenario_subscribers_but_carol no_sends_def every_send_accepted_def)
  from resolved_originator_broadcasts_then_confirms [OF h1 h2 h3 h4, of first_send_fails no_sends]
  have run2: "sent_during no_sends
       (snd (handleSmsFunction first_send_fails scenario_directory ?req no_sends)) =
       [(''+1B'', ''Broadcast from Carol:'' @ [newline] @ ''fire drill''),
        (''+1D'', ''Broadcast from Carol:'' @ [newline] @ ''fire drill'')]"
    by (simp add: Let_def scenario_subscribers_but_carol first_send_fails_def no_sends_def)
  from scenario_find(3) h4 run1 run2 show ?thesis
    by (simp add: Role_STAFF_def)
qed

text \<open>
  C3. The escalation of a message from a contact holding only \<open>SUBSCRIBER\<close> does not
  happen either: the handler takes the same branch as for an unknown sender, and the call
  of \<^verbatim>\<open>forwardMessageToSupervisor\<close> throws before the confirmation is reached. In the
  scenario directory Bob's number \<open>+1B\<close> resolves to his record, which holds only
  \<open>SUBSCRIBER\<close>, and Alice holds \<open>SUPERVISOR\<close>; Bob's message is answered 500, Alice is sent
  nothing and Bob is sent no confirmation, for every gateway.
\<close>

theorem subscriber_only_sender_is_answered_500_and_nothing_is_sent:
  "find (\<lambda>u. phoneNumber u = ''+1B'') (map snd scenario_directory) =
       Some \<lparr>name = ''Bob'', phoneNumber = ''+1B'', roles = [''SUBSCRIBER'']\<rparr>
   \<and> \<lparr>name = ''Alice'', phoneNumber = ''+1A'', roles = [''SUPERVISOR'']\<rparr>
        \<in> set (map snd scenario_directory)
   \<and> handleSmsFunction gw scenario_directory \<lparr>req_From = ''+1B'', req_Body = ''help''\<rparr> no_sends =
       (\<lparr>status = 500, payload = Text ''Internal Server Error''\<rparr>, no_sends)"
proof -
  have path: "case getUserByPhoneNumber scenario_directory
                     (req_From \<lparr>req_From = ''+1B'', req_Body = ''help''\<rparr>) of
           None \<Rightarrow> True
         | Some u \<Rightarrow> Role_SUBSCRIBER \<in> set (roles u) \<and> Role_STAFF \<notin> set (roles u)
                      \<and> Role_SUPERVISOR \<notin> set (roles u)"
    by (simp add: getUserByPhoneNumber_find scenario_find role_defs)
  have "handleSmsFunction gw scenario_directory \<lparr>req_From = ''+1B'', req_Body = ''help''\<rparr> no_sends =
       (\<lparr>status = 500, payload = Text ''Internal Server Error''\<rparr>, no_sends)"
    by (simp add: handleSms_escalation_path [OF _ _ path] internal_error_def)
  moreover have "\<lparr>name = ''Alice'', phoneNumber = ''+1A'', roles = [''SUPERVISOR'']\<rparr>
        \<in> set (map snd scenario_directory)"
    by (simp add: scenario_directory_def)
  ultimately show ?thesis
    using scenario_find(2) by blast
qed

text \<open>
  C4, as stated, fails for a recognized contact without roles. Dave is in the directory
  with an empty role list: the first condition of the handler fails (he is recognized and
  does not hold \<open>SUBSCRIBER\<close>) and so does the \<^verbatim>\<open>else if\<close> (he holds neither \<open>STAFF\<close> nor
  \<open>SUPERVISOR\<close>). His message is answered 200 with the empty TwiML document and the gateway
  state is unchanged: neither service is entered and nothing is sent. It fails as well
  for a request without a body, which is answered 400 before the sender is looked up.
\<close>

theorem contact_without_roles_is_neither_escalated_nor_broadcast:
  "find (\<lambda>u. phoneNumber u = ''+1D'') (map snd roleless_directory) =
       Some \<lparr>name = ''Dave'', phoneNumber = ''+1D'', roles = []\<rparr>
   \<and> handleSmsFunction every_send_accepted roleless_directory
       \<lparr>req_From = ''+1D'', req_Body = ''hello''\<rparr> no_sends =
       (\<lparr>status = 200, payload = Xml ''<Response></Response>''\<rparr>, no_sends)
   \<and> handleSmsFunction every_send_accepted roleless_directory
       \<lparr>req_From = ''+1A'', req_Body = []\<rparr> no_sends =
       (\<lparr>status = 400, payload = Text ''Missing required parameters''\<rparr>, no_sends)"
proof -
  have found: "find (\<lambda>u. phoneNumber u = ''+1D'') (map snd roleless_directory) =
       Some \<lparr>name = ''Dave'', phoneNumber = ''+1D'', roles = []\<rparr>"
    by (simp add: roleless_directory_def)
  then have resolved: "getUserByPhoneNumber roleless_directory
                 (req_From \<lparr>req_From = ''+1D'', req_Body = ''hello''\<rparr>) =
       Some \<lparr>name = ''Dave'', phoneNumber = ''+1D'', roles = []\<rparr>"
    by (simp add: getUserByPhoneNumber_find)
  have idle: "handleSmsFunction every_send_accepted roleless_directory
       \<lparr>req_From = ''+1D'', req_Body = ''hello''\<rparr> no_sends =
       (\<lparr>status = 200, payload = Xml ''<Response></Response>''\<rparr>, no_sends)"
    by (simp add: handleSms_idle_path [OF _ _ resolved] twiml_ok_def)
  have empty: "handleSmsFunction every_send_accepted roleless_directory
       \<lparr>req_From = ''+1A'', req_Body = []\<rparr> no_sends =
       (\<lparr>status = 400, payload = Text ''Missing required parameters''\<rparr>, no_sends)"
    by (simp add: handleSms_missing_parameters)
  from found idle empty show ?thesis by blast
qed

text \<open>
  C4, amended. For a request with a non-empty sender and a non-empty body whose sender's
  phone number resolves (first record of the directory with that number) to a contact \<open>C\<close>:
  when \<open>C\<close> holds \<open>STAFF\<close> or \<open>SUPERVISOR\<close>, the handler enters the broadcast service, once,
  and no other service; when \<open>C\<close> holds none of \<open>SUBSCRIBER\<close>, \<open>STAFF\<close> and \<open>SUPERVISOR\<close> (an
  empty role list, for one), the handler enters no service, sends nothing and answers 200
  with the empty TwiML document.
\<close>

theorem resolved_sender_broadcasts_or_does_nothing:
  assumes "req_From req \<noteq> []" and "req_Body req \<noteq> []"
    and "find (\<lambda>u. phoneNumber u = req_From req) (map snd db) = Some C"
  shows "(Role_STAFF \<in> set (roles C) \<or> Role_SUPERVISOR \<in> set (roles C) \<longrightarrow>
            calls (snd (handleSmsFunction gw db req w)) =
              calls w @ [BroadcastMessage (req_From req) (req_Body req)])
       \<and> (Role_SUBSCRIBER \<notin> set (roles C) \<and> Role_STAFF \<notin> set (roles C)
            \<and> Role_SUPERVISOR \<notin> set (roles C) \<longrightarrow>
            handleSmsFunction gw db req w =
              (\<lparr>status = 200, payload = Xml ''<Response></Response>''\<rparr>, w))"
proof -
  from assms(3) have resolved: "getUserByPhoneNumber db (req_From req) = Some C"
    by (simp add: getUserByPhoneNumber_find)
  show ?thesis
  proof (intro conjI impI)
    assume "Role_STAFF \<in> set (roles C) \<or> Role_SUPERVISOR \<in> set (roles C)"
    then show "calls (snd (handleSmsFunction gw db req w)) =
              calls w @ [BroadcastMessage (req_From req) (req_Body req)]"
      by (rule handleSms_broadcast_run(2) [OF assms(1,2) resolved])
  next
    assume "Role_SUBSCRIBER \<notin> set (roles C) \<and> Role_STAFF \<notin> set (roles C)
            \<and> Role_SUPERVISOR \<notin> set (roles C)"
    then show "handleSmsFunction gw db req w =
              (\<lparr>status = 200, payload = Xml ''<Response></Response>''\<rparr>, w)"
      by (simp add: handleSms_idle_path [OF assms(1,2) resolved] twiml_ok_def)
  qed
qed

theorem resolved_sender_broadcasts_or_does_nothing_witness:
  "find (\<lambda>u. phoneNumber u = ''+1C'') (map snd scenario_directory) =
       Some \<lparr>name = ''Carol'', phoneNumber = ''+1C'', roles = [''STAFF'']\<rparr>
   \<and> calls (snd (handleSmsFunction every_send_accepted scenario_directory
               \<lparr>req_From = ''+1C'', req_Body = ''fire drill''\<rparr> no_sends)) =
       [BroadcastMessage ''+1C'' ''fire drill'']
   \<and> find (\<lambda>u. phoneNumber u = ''+1D'') (map snd roleless_directory) =
       Some \<lparr>name = ''Dave'', phoneNumber = ''+1D'', roles = []\<rparr>
   \<and> handleSmsFunction first_send_fails roleless_directory
       \<lparr>req_From = ''+1D'', req_Body = ''hello''\<rparr> no_sends =
       (\<lparr>status = 200, payload = Xml ''<Response></Response>''\<rparr>, no_sends)"
proof -
  let ?req = "\<lparr>req_From = ''+1C'', req_Body = ''fire drill''\<rparr>"
  let ?carol = "\<lparr>name = ''Carol'', phoneNumber = ''+1C'', roles = [''STAFF'']\<rparr>"
  let ?req' = "\<lparr>req_From = ''+1D'', req_Body = ''hello''\<rparr>"
  let ?dave = "\<lparr>name = ''Dave'', phoneNumber = ''+1D'', roles = []\<rparr>"
  have c1: "req_From ?req \<noteq> []" and c2: "req_Body ?req \<noteq> []"
    and d1: "req_From ?req' \<noteq> []" and d2: "req_Body ?req' \<noteq> []"
    by simp_all
  have c3: "find (\<lambda>u. phoneNumber u = req_From ?req) (map snd scenario_directory) = Some ?carol"
    by (simp add: scenario_find)
  have dave: "find (\<lambda>u. phoneNumber u = ''+1D'') (map snd roleless_directory) = Some ?dave"
    by (simp add: roleless_directory_def)
  then have d3: "find (\<lambda>u. phoneNumber u = req_From ?req') (map snd roleless_directory) = Some ?dave"
    by simp
  from resolved_sender_broadcasts_or_does_nothing [OF c1 c2 c3, of every_send_accepted no_sends]
  have carol_run: "calls (snd (handleSmsFunction every_send_accepted scenario_directory ?req no_sends)) =
       [BroadcastMessage ''+1C'' ''fire drill'']"
    by (simp add: Role_STAFF_def no_sends_def)
  from resolved_sender_broadcasts_or_does_nothing [OF d1 d2 d3, of first_send_fails no_sends]
  have dave_run: "handleSmsFunction first_send_fails roleless_directory ?req' no_sends =
       (\<lparr>status = 200, payload = Xml ''<Response></Response>''\<rparr>, no_sends)"
    by simp
  from scenario_find(3) carol_run dave dave_run show ?thesis by blast
qed

section \<open>Properties of the directory API\<close>

lemma delete_user_absent:
  assumes "p \<noteq> []" and "\<forall>u \<in> set (listUsers db). phoneNumber u \<noteq> p"
  shows "delete_user p db = (json_error 404 ''User not found'', db)"
  using assms by (simp add: delete_user_def getUserByPhoneNumber_None_iff [symmetric])

lemma delete_user_present:
  assumes "p \<noteq> []" and "distinct (map fst db)" and "\<exists>u \<in> set (listUsers db). phoneNumber u = p"
  shows "delete_user p db =
     (json_message 200 ''User removed successfully'',
      filter (\<lambda>doc. phoneNumber (snd doc) \<noteq> p) db)"
proof -
  from assms(3) have "getUserByPhoneNumber db p \<noteq> None"
    by (simp add: getUserByPhoneNumber_None_iff)
  then obtain u where "getUserByPhoneNumber db p = Some u" by blast
  with assms(1) show ?thesis
    by (simp add: delete_user_def removeUser_filter [OF assms(2)])
qed

lemma listUsers_after_removal:
  "\<forall>u \<in> set (listUsers (filter (\<lambda>doc. phoneNumber (snd doc) \<noteq> p) db)). phoneNumber u \<noteq> p"
  by (auto simp: listUsers_def)

text \<open>
  C7, as stated, fails: no record of the scenario directory has the number \<open>+1X\<close>, and
  both delete handlers answer a delete for it with 404 \<^verbatim>\<open>User not found\<close>, an error, not
  with success.
\<close>

theorem delete_of_an_absent_contact_answers_not_found:
  "''+1X'' \<notin> set (map phoneNumber (listUsers scenario_directory))
   \<and> deleteUserFunction delete_unknown_request scenario_directory =
       (\<lparr>status = 404, payload = JsonError ''User not found''\<rparr>, scenario_directory)
   \<and> router_delete_users delete_unknown_request scenario_directory =
       (\<lparr>status = 404, payload = JsonError ''User not found''\<rparr>, scenario_directory)"
proof -
  have absent: "\<forall>u \<in> set (listUsers scenario_directory). phoneNumber u \<noteq> ''+1X''"
    by (simp add: listUsers_def scenario_directory_def)
  have p: "path_pop ''/+1X'' = ''+1X''"
    by (simp add: path_pop_def)
  have "deleteUserFunction delete_unknown_request scenario_directory =
       (\<lparr>status = 404, payload = JsonError ''User not found''\<rparr>, scenario_directory)"
    by (simp add: deleteUserFunction_def delete_unknown_request_def p
          delete_user_absent [OF _ absent] json_error_def)
  moreover have "router_delete_users delete_unknown_request scenario_directory =
       (\<lparr>status = 404, payload = JsonError ''User not found''\<rparr>, scenario_directory)"
    by (simp add: router_delete_users_def delete_unknown_request_def
          delete_user_absent [OF _ absent] json_error_def)
  moreover have "''+1X'' \<notin> set (map phoneNumber (listUsers scenario_directory))"
    by (simp add: listUsers_def scenario_directory_def)
  ultimately show ?thesis by blast
qed

text \<open>
  C7, amended. For a delete request with a phone number (method \<^verbatim>\<open>DELETE\<close>; the number is
  the last path segment, or the route parameter): when no contact has the number, both
  handlers answer 404 \<^verbatim>\<open>User not found\<close> and leave the directory unchanged; when a contact
  has it, they answer 200, every record with that number is removed, and the same
  request repeated answers 404. The handler is idempotent in the directory state it
  leaves, not in its answer. (Document references are unique.)
\<close>

theorem delete_answers_not_found_on_absence_and_deletes_on_presence:
  assumes "p \<noteq> []" and "distinct (map fst db)"
    and "req_method req = ''DELETE''" and "path_pop (req_path req) = p"
    and "req_params_phoneNumber req = p"
  shows "((\<forall>u \<in> set (listUsers db). phoneNumber u \<noteq> p) \<longrightarrow>
            deleteUserFunction req db =
              (\<lparr>status = 404, payload = JsonError ''User not found''\<rparr>, db)
          \<and> router_delete_users req db =
              (\<lparr>status = 404, payload = JsonError ''User not found''\<rparr>, db))
       \<and> ((\<exists>u \<in> set (listUsers db). phoneNumber u = p) \<longrightarrow>
            deleteUserFunction req db =
              (\<lparr>status = 200, payload = JsonMessage ''User removed successfully''\<rparr>,
               filter (\<lambda>doc. phoneNumber (snd doc) \<noteq> p) db)
          \<and> router_delete_users req db = deleteUserFunction req db
          \<and> deleteUserFunction req (snd (deleteUserFunction req db)) =
              (\<lparr>status = 404, payload = JsonError ''User not found''\<rparr>,
               snd (deleteUserFunction req db)))"
proof (intro conjI impI)
  assume absent: "\<forall>u \<in> set (listUsers db). phoneNumber u \<noteq> p"
  show "deleteUserFunction req db =
      (\<lparr>status = 404, payload = JsonError ''User not found''\<rparr>, db)"
    by (simp add: deleteUserFunction_def assms(3,4) delete_user_absent [OF assms(1) absent]
          json_error_def)
  show "router_delete_users req db =
      (\<lparr>status = 404, payload = JsonError ''User not found''\<rparr>, db)"
    by (simp add: router_delete_users_def assms(5) delete_user_absent [OF assms(1) absent]
          json_error_def)
next
  assume present: "\<exists>u \<in> set (listUsers db). phoneNumber u = p"
  show first: "deleteUserFunction req db =
      (\<lparr>status = 200, payload = JsonMessage ''User removed successfully''\<rparr>,
       filter (\<lambda>doc. phoneNumber (snd doc) \<noteq> p) db)"
    by (simp add: deleteUserFunction_def assms(3,4)
          delete_user_present [OF assms(1,2) present] json_message_def)
  show "router_delete_users req db = deleteUserFunction req db"
    by (simp add: router_delete_users_def deleteUserFunction_def assms(3,4,5))
  show "deleteUserFunction req (snd (deleteUserFunction req db)) =
      (\<lparr>status = 404, payload = JsonError ''User not found''\<rparr>, snd (deleteUserFunction req db))"
    unfolding first snd_conv
    by (simp add: deleteUserFunction_def assms(3,4)
          delete_user_absent [OF assms(1) listUsers_after_removal] json_error_def)
qed

theorem delete_answers_not_found_on_absence_and_deletes_on_presence_witness:
  "distinct (map fst scenario_directory)
   \<and> ''+1X'' \<notin> set (map phoneNumber (listUsers scenario_directory))
   \<and> deleteUserFunction delete_unknown_request scenario_directory =
       (\<lparr>status = 404, payload = JsonError ''User not found''\<rparr>, scenario_directory)
   \<and> router_delete_users delete_unknown_request scenario_directory =
       (\<lparr>status = 404, payload = JsonError ''User not found''\<rparr>, scenario_directory)
   \<and> ''+1B'' \<in> set (map phoneNumber (listUsers scenario_directory))
   \<and> deleteUserFunction delete_bob_request scenario_directory =
       (\<lparr>status = 200, payload = JsonMessage ''User removed successfully''\<rparr>,
        [(0, \<lparr>name = ''Alice'', phoneNumber = ''+1A'', roles = [''SUPERVISOR'']\<rparr>),
         (2, \<lparr>name = ''Carol'', phoneNumber = ''+1C'', roles = [''STAFF'']\<rparr>),
         (3, \<lparr>name = ''Dan'', phoneNumber = ''+1D'', roles = [''SUBSCRIBER'']\<rparr>),
         (4, \<lparr>name = ''Erin'', phoneNumber = ''+1E'', roles = [''SUPERVISOR'']\<rparr>)])
   \<and> deleteUserFunction delete_bob_request
         (snd (deleteUserFunction delete_bob_request scenario_directory)) =
       (\<lparr>status = 404, payload = JsonError ''User not found''\<rparr>,
        snd (deleteUserFunction delete_bob_request scenario_directory))"
proof -
  have d: "distinct (map fst scenario_directory)"
    by (simp add: scenario_directory_def)
  have x: "\<forall>u \<in> set (listUsers scenario_directory). phoneNumber u \<noteq> ''+1X''"
    and x': "''+1X'' \<notin> set (map phoneNumber (listUsers scenario_directory))"
    and b: "\<exists>u \<in> set (listUsers scenario_directory). phoneNumber u = ''+1B''"
    and b': "''+1B'' \<in> set (map phoneNumber (listUsers scenario_directory))"
    by (simp_all add: listUsers_def scenario_directory_def)
  have rx: "req_method delete_unknown_request = ''DELETE''"
    "path_pop (req_path delete_unknown_request) = ''+1X''"
    "req_params_phoneNumber delete_unknown_request = ''+1X''"
    by (simp_all add: delete_unknown_request_def path_pop_def)
  have rb: "req_method delete_bob_request = ''DELETE''"
    "path_pop (req_path delete_bob_request) = ''+1B''"
    "req_params_phoneNumber delete_bob_request = ''+1B''"
    by (simp_all add: delete_bob_request_def path_pop_def)
  have after: "filter (\<lambda>doc. phoneNumber (snd doc) \<noteq> ''+1B'') scenario_directory =
        [(0, \<lparr>name = ''Alice'', phoneNumber = ''+1A'', roles = [''SUPERVISOR'']\<rparr>),
         (2, \<lparr>name = ''Carol'', phoneNumber = ''+1C'', roles = [''STAFF'']\<rparr>),
         (3, \<lparr>name = ''Dan'', phoneNumber = ''+1D'', roles = [''SUBSCRIBER'']\<rparr>),
         (4, \<lparr>name = ''Erin'', phoneNumber = ''+1E'', roles = [''SUPERVISOR'']\<rparr>)]"
    by (simp add: scenario_directory_def)
  from delete_answers_not_found_on_absence_and_deletes_on_presence [OF _ d rx] x
  have absent: "deleteUserFunction delete_unknown_request scenario_directory =
       (\<lparr>status = 404, payload = JsonError ''User not found''\<rparr>, scenario_directory)"
    "router_delete_users delete_unknown_request scenario_directory =
       (\<lparr>status = 404, payload = JsonError ''User not found''\<rparr>, scenario_directory)"
    by blast+
  from delete_answers_not_found_on_absence_and_deletes_on_presence [OF _ d rb] b
  have present: "deleteUserFunction delete_bob_request scenario_directory =
       (\<lparr>status = 200, payload = JsonMessage ''User removed successfully''\<rparr>,
        filter (\<lambda>doc. phoneNumber (snd doc) \<noteq> ''+1B'') scenario_directory)"
    "deleteUserFunction delete_bob_request
         (snd (deleteUserFunction delete_bob_request scenario_directory)) =
       (\<lparr>status = 404, payload = JsonError ''User not found''\<rparr>,
        snd (deleteUserFunction delete_bob_request scenario_directory))"
    by blast+
  from d x' b' absent present show ?thesis
    by (simp add: after)
qed

text \<open>The validation loop finds a token outside the enumeration when there is one.\<close>

lemma invalid_role_found:
  assumes "\<exists>role \<in> set rs. role \<notin> set Role_values"
  shows "\<exists>role. invalid_role rs = Some role \<and> role \<in> set rs \<and> role \<notin> set Role_values"
proof (cases "invalid_role rs")
  case None
  with assms show ?thesis
    by (auto simp: invalid_role_def find_None_iff)
next
  case (Some role)
  then show ?thesis
    by (auto simp: invalid_role_def find_Some_iff)
qed

lemma router_post_users_invalid_role:
  assumes "req_body_roles req = Some rs" and "invalid_role rs = Some role"
  shows "router_post_users req db =
     (json_error 400
        (if req_body_name req = [] \<or> req_body_phoneNumber req = []
         then ''Name, phone number, and roles are required''
         else ''Invalid role: '' @ role), db)"
  using assms by (simp add: router_post_users_def Let_def)

lemma update_user_invalid_role:
  assumes "req_body_roles req = Some rs" and "invalid_role rs = Some role"
  shows "update_user p req db =
     (json_error 400
        (if p = [] then ''Phone number is required'' else ''Invalid role: '' @ role), db)"
  using assms by (simp add: update_user_def)

text \<open>
  C9. A request to add a user or to replace a user's roles whose \<^verbatim>\<open>roles\<close> array holds a
  token that is not a member of the \<^verbatim>\<open>Role\<close> enumeration, through either the separate
  functions or the router: the directory after the request is the directory before it
  (nothing inserted, no role list changed); the response is the same whatever the
  directory holds, so it is decided before the store is consulted; and it is a 400
  (for the separate functions a 405 when the request has the wrong method).
\<close>

theorem unknown_role_token_is_rejected_before_the_store:
  assumes "req_body_roles req = Some rs"
    and "\<exists>role \<in> set rs. role \<notin> set Role_values"
  shows "snd (addUserFunction req db) = db
       \<and> snd (router_post_users req db) = db
       \<and> snd (updateUserFunction req db) = db
       \<and> snd (router_put_users req db) = db
       \<and> fst (addUserFunction req db) = fst (addUserFunction req db')
       \<and> fst (router_post_users req db) = fst (router_post_users req db')
       \<and> fst (updateUserFunction req db) = fst (updateUserFunction req db')
       \<and> fst (router_put_users req db) = fst (router_put_users req db')
       \<and> status (fst (addUserFunction req db)) = (if req_method req = ''POST'' then 400 else 405)
       \<and> status (fst (router_post_users req db)) = 400
       \<and> status (fst (updateUserFunction req db)) = (if req_method req = ''PUT'' then 400 else 405)
       \<and> status (fst (router_put_users req db)) = 400"
proof -
  from invalid_role_found [OF assms(2)] obtain role where r: "invalid_role rs = Some role"
    by blast
  note post = router_post_users_invalid_role [OF assms(1) r]
  note put = update_user_invalid_role [OF assms(1) r]
  show ?thesis
    by (simp add: addUserFunction_def updateUserFunction_def router_put_users_def post put
          json_error_def)
qed

theorem unknown_role_token_is_rejected_before_the_store_witness:
  "req_body_roles add_with_unknown_role_request = Some [''SUBSCRIBER'', ''ADMIN'']
   \<and> ''ADMIN'' \<in> set [''SUBSCRIBER'', ''ADMIN''] \<and> ''ADMIN'' \<notin> set Role_values
   \<and> snd (addUserFunction add_with_unknown_role_request scenario_directory) = scenario_directory
   \<and> status (fst (addUserFunction add_with_unknown_role_request scenario_directory)) = 400
   \<and> snd (router_post_users add_with_unknown_role_request scenario_directory) = scenario_directory
   \<and> req_body_roles update_with_unknown_role_request = Some [''OWNER'']
   \<and> ''OWNER'' \<notin> set Role_values
   \<and> snd (updateUserFunction update_with_unknown_role_request scenario_directory) = scenario_directory
   \<and> snd (router_put_users update_with_unknown_role_request scenario_directory) = scenario_directory
   \<and> status (fst (router_put_users update_with_unknown_role_request scenario_directory)) = 400"
proof -
  have a1: "req_body_roles add_with_unknown_role_request = Some [''SUBSCRIBER'', ''ADMIN'']"
    by (simp add: add_with_unknown_role_request_def)
  have a2: "\<exists>role \<in> set [''SUBSCRIBER'', ''ADMIN'']. role \<notin> set Role_values"
    by (simp add: Role_values_def role_defs)
  have a3: "''ADMIN'' \<in> set [''SUBSCRIBER'', ''ADMIN'']" "''ADMIN'' \<notin> set Role_values"
    by (simp_all add: Role_values_def role_defs)
  have am: "req_method add_with_unknown_role_request = ''POST''"
    by (simp add: add_with_unknown_role_request_def)
  have u1: "req_body_roles update_with_unknown_role_request = Some [''OWNER'']"
    by (simp add: update_with_unknown_role_request_def)
  have u2: "\<exists>role \<in> set [''OWNER'']. role \<notin> set Role_values"
    by (simp add: Role_values_def role_defs)
  have u3: "''OWNER'' \<notin> set Role_values"
    by (simp add: Role_values_def role_defs)
  from unknown_role_token_is_rejected_before_the_store
         [OF a1 a2, of scenario_directory scenario_directory] am
  have add: "snd (addUserFunction add_with_unknown_role_request scenario_directory) =
        scenario_directory"
    "status (fst (addUserFunction add_with_unknown_role_request scenario_directory)) = 400"
    "snd (router_post_users add_with_unknown_role_request scenario_directory) =
        scenario_directory"
    by simp_all
  from unknown_role_token_is_rejected_before_the_store
         [OF u1 u2, of scenario_directory scenario_directory]
  have upd: "snd (updateUserFunction update_with_unknown_role_request scenario_directory) =
        scenario_directory"
    "snd (router_put_users update_with_unknown_role_request scenario_directory) =
        scenario_directory"
    "status (fst (router_put_users update_with_unknown_role_request scenario_directory)) = 400"
    by simp_all
  from a1 a3 u1 u3 add upd show ?thesis by blast
qed

end
